theory Spec2Isabelle
  imports Complex_Main "HOL-Library.Word"
begin

unbundle bit_operations_syntax

section \<open>The sensor-hub driver CwMcuSensor.cpp\<close>

text \<open>
  A shallow embedding of \<^verbatim>\<open>src/sensor_hub/libsensors/CwMcuSensor.cpp\<close>: the record decoder
  \<^verbatim>\<open>processEvent\<close>, the dispatch loop \<^verbatim>\<open>readEvents\<close>, the quaternion completion
  \<^verbatim>\<open>calculate_rv_4th_element\<close>, the light table \<^verbatim>\<open>indexToValue\<close>, the two lookup switches
  and the control operations \<^verbatim>\<open>setEnable\<close>, \<^verbatim>\<open>setDelay\<close>, \<^verbatim>\<open>batch\<close>, \<^verbatim>\<open>flush\<close> and
  \<^verbatim>\<open>sync_timestamp\<close>.

  Conventions of the embedding.
  \<^item> A \<^verbatim>\<open>float\<close> is the real number it denotes; infinities and NaN are not
    represented. The arithmetic of \<^verbatim>\<open>calculate_rv_4th_element\<close> rounds every operation to
    IEEE binary32 (round to nearest, ties to even). The products with the scale factors
    of the header, whose values and types are not in the sources, are not rounded.
  \<^item> An access \<^verbatim>\<open>mPendingEvents[i]\<close> outside the table and a shift \<^verbatim>\<open>1 << i\<close> by 32 or more
    are undefined behaviour in C++; the model returns an error value there.
  \<^item> The clock, the sysfs files and the character device are an explicit environment
    \<open>world\<close>, whose answers are arbitrary functions of the number of earlier requests.
  \<^item> The mutex \<^verbatim>\<open>sys_fs_mutex\<close> and the log output are not modelled.
\<close>

subsection \<open>Constants declared outside the file\<close>

text \<open>
  The enumeration \<^verbatim>\<open>CW_SENSORS_ID\<close> of CwMcuSensor.h. The header is not part of the sources,
  so the enumerators are a datatype and their numeric values a parameter (\<open>tag\<close> below).
\<close>

datatype CW_SENSORS_ID =
    CW_ACCELERATION | CW_MAGNETIC | CW_GYRO | CW_LIGHT | CW_PRESSURE | CW_ORIENTATION
  | CW_ROTATIONVECTOR | CW_LINEARACCELERATION | CW_GRAVITY | HTC_WAKE_UP_GESTURE
  | CW_MAGNETIC_UNCALIBRATED | CW_GYROSCOPE_UNCALIBRATED | CW_GAME_ROTATION_VECTOR
  | CW_GEOMAGNETIC_ROTATION_VECTOR | CW_SIGNIFICANT_MOTION | CW_STEP_DETECTOR
  | CW_STEP_COUNTER | TIME_DIFF_EXHAUSTED | CW_SYNC_ACK | CW_META_DATA

definition all_ids :: "CW_SENSORS_ID list" where
  "all_ids =
     [CW_ACCELERATION, CW_MAGNETIC, CW_GYRO, CW_LIGHT, CW_PRESSURE, CW_ORIENTATION,
      CW_ROTATIONVECTOR, CW_LINEARACCELERATION, CW_GRAVITY, HTC_WAKE_UP_GESTURE,
      CW_MAGNETIC_UNCALIBRATED, CW_GYROSCOPE_UNCALIBRATED, CW_GAME_ROTATION_VECTOR,
      CW_GEOMAGNETIC_ROTATION_VECTOR, CW_SIGNIFICANT_MOTION, CW_STEP_DETECTOR,
      CW_STEP_COUNTER, TIME_DIFF_EXHAUSTED, CW_SYNC_ACK, CW_META_DATA]"

text \<open>
  The constants of CwMcuSensor.h and sensors.h that the file uses: the value of every
  enumerator, \<^verbatim>\<open>CW_SENSORS_ID_END\<close>, \<^verbatim>\<open>numSensors\<close>, the framework handle \<^verbatim>\<open>ID_*\<close> of a
  sensor, the scale factors and the code written for a clock synchronisation.
\<close>

record header =
  tag :: "CW_SENSORS_ID \<Rightarrow> nat"
  CW_SENSORS_ID_END :: nat
  numSensors :: nat
  ID :: "CW_SENSORS_ID \<Rightarrow> int"
  CONVERT_10 :: real
  CONVERT_100 :: real
  CONVERT_10000 :: real
  TIMESTAMP_SYNC_CODE :: int

text \<open>Constants of the file itself and of the platform headers errno.h and hardware/sensors.h.\<close>

definition LIGHTSENSOR_LEVEL :: nat where "LIGHTSENSOR_LEVEL = 10"
definition NS_PER_MS :: int where "NS_PER_MS = 1000000"
definition SYNC_ACK_MAGIC :: int where "SYNC_ACK_MAGIC = 0x66"
definition EXHAUSTED_MAGIC :: int where "EXHAUSTED_MAGIC = 0x77"
definition IIO_MAX_BUFF_SIZE :: nat where "IIO_MAX_BUFF_SIZE = 1024"
definition ENOENT :: int where "ENOENT = 2"
definition EIO :: int where "EIO = 5"
definition EINVAL :: int where "EINVAL = 22"
definition SENSORS_BATCH_DRY_RUN :: int where "SENSORS_BATCH_DRY_RUN = 1"
definition META_DATA_FLUSH_COMPLETE :: int where "META_DATA_FLUSH_COMPLETE = 1"

subsection \<open>The light table\<close>

definition luxValues :: "real list" where
  "luxValues = [0.0, 10.0, 40.0, 90.0, 160.0, 225.0, 320.0, 640.0, 1280.0, 2600.0]"

definition indexToValue :: "nat \<Rightarrow> real" where
  "indexToValue index =
     (let maxIndex = LIGHTSENSOR_LEVEL - 1;
          index = (if index > maxIndex then maxIndex else index)
      in luxValues ! index)"

subsection \<open>The environment\<close>

text \<open>
  What the driver observes of the outside: \<open>now n\<close> is the value of the \<open>n\<close>-th call of
  \<^verbatim>\<open>getTimestamp\<close> (of SensorBase), \<open>open_succeeds n\<close> and \<open>write_succeeds n\<close> say whether
  the \<open>n\<close>-th \<^verbatim>\<open>open\<close> of a file, and the \<^verbatim>\<open>write\<close> that follows it, succeed, and
  \<open>errno_of n\<close> is the value of \<^verbatim>\<open>errno\<close> after a failure there. \<open>written\<close> lists the
  attributes written so far with the numbers printed into them. \<open>fill_block_prop\<close> is
  the integer value of the system property \<^verbatim>\<open>debug.sensorhal.fill.block\<close>.
  \<open>device_frames\<close> are the records waiting in the character device and \<open>device_error\<close>
  is the (negative) result of a failing read of it, or 0.
\<close>

record world =
  now :: "nat \<Rightarrow> 64 word"
  clock_reads :: nat
  open_succeeds :: "nat \<Rightarrow> bool"
  write_succeeds :: "nat \<Rightarrow> bool"
  errno_of :: "nat \<Rightarrow> int"
  opens :: nat
  written :: "(string \<times> int list) list"
  fill_block_prop :: int
  device_frames :: "8 word list list"
  device_error :: int

definition getTimestamp :: "world \<Rightarrow> 64 word \<times> world" where
  "getTimestamp w = (now w (clock_reads w), w\<lparr>clock_reads := Suc (clock_reads w)\<rparr>)"

text \<open>
  \<^verbatim>\<open>fd = open(path, O_RDWR); write(fd, buf, n); close(fd)\<close>: the result is the pair
  (the file could be opened, the write succeeded).
\<close>

definition open_write :: "string \<Rightarrow> int list \<Rightarrow> world \<Rightarrow> (bool \<times> bool) \<times> world" where
  "open_write attr vals w =
     (let k = opens w; w1 = w\<lparr>opens := Suc k\<rparr>
      in if open_succeeds w k
         then if write_succeeds w k
              then ((True, True), w1\<lparr>written := written w1 @ [(attr, vals)]\<rparr>)
              else ((True, False), w1)
         else ((False, False), w1))"

text \<open>\<^verbatim>\<open>sysfs_set_input_attr\<close> and \<^verbatim>\<open>sysfs_set_input_attr_by_int\<close>: 0, \<^verbatim>\<open>-EACCES\<close> or \<^verbatim>\<open>-EIO\<close>.\<close>

definition EACCES :: int where "EACCES = 13"

definition sysfs_set_input_attr :: "string \<Rightarrow> int list \<Rightarrow> world \<Rightarrow> int \<times> world" where
  "sysfs_set_input_attr attr vals w =
     (case open_write attr vals w of
        ((opened, wrote), w1) \<Rightarrow>
          (if \<not> opened then (- EACCES, w1) else if \<not> wrote then (- EIO, w1) else (0, w1)))"

definition sysfs_set_input_attr_by_int :: "string \<Rightarrow> int \<Rightarrow> world \<Rightarrow> int \<times> world" where
  "sysfs_set_input_attr_by_int attr v w = sysfs_set_input_attr attr [v] w"

text \<open>
  The calibration files (\<^verbatim>\<open>cw_read_calibrator_file\<close> followed, when it returns 0, by
  \<^verbatim>\<open>cw_save_calibrator_file\<close>) touch the file system only: one open of the source file,
  and the copy is recorded when it succeeds.
\<close>

definition copy_calibration :: "string \<Rightarrow> string \<Rightarrow> world \<Rightarrow> world" where
  "copy_calibration src dst w =
     (let k = opens w; w1 = w\<lparr>opens := Suc k\<rparr>
      in if open_succeeds w k then w1\<lparr>written := written w1 @ [(dst, [])]\<rparr> else w1)"

subsection \<open>The driver state\<close>

text \<open>
  \<^verbatim>\<open>sensors_event_t\<close> of hardware/sensors.h. Its payload is a union in C; the members the
  file writes are separate fields here: the floats \<open>data\<close> (\<^verbatim>\<open>light\<close> and \<^verbatim>\<open>pressure\<close> are
  \<^verbatim>\<open>data[0]\<close>), the accuracy \<open>status\<close>, \<^verbatim>\<open>u64.step_counter\<close> and the two fields of
  \<^verbatim>\<open>meta_data\<close>.
\<close>

record sensors_event =
  version :: int
  sensor :: int
  etype :: int
  timestamp :: "64 word"
  data :: "nat \<Rightarrow> real"
  status :: "8 word"
  step_counter :: "64 word"
  meta_what :: int
  meta_sensor :: int

text \<open>
  The fields of the class and the global \<^verbatim>\<open>fill_block_debug\<close>. \<open>fixed_sysfs_path\<close> holds the
  attribute name last copied behind the fixed directory prefix.
  Modelled from the spec: \<^verbatim>\<open>InputEventCircularReader\<close> is missing from the sources;
  \<open>mInputReader\<close> is the list of the buffered records, oldest first
  (``pops one buffered record, or reports empty if none remain'').
\<close>

record CwMcuSensor =
  mEnabled :: "32 word"
  mPendingMask :: "32 word"
  mPendingEvents :: "sensors_event list"
  mPendingEventsFlush :: sensors_event
  mFlushSensorEnabled :: int
  l_timestamp :: "64 word"
  g_timestamp :: "64 word"
  init_trigger_done :: bool
  fill_block_debug :: int
  fixed_sysfs_path :: string
  mInputReader :: "8 word list list"
  env :: world

datatype error = IndexOutOfRange | ShiftOutOfRange

text \<open>\<^verbatim>\<open>mPendingEvents[i].field = v\<close> and \<^verbatim>\<open>mPendingEvents[i]\<close>, checked against the table.\<close>

definition set_slot ::
  "nat \<Rightarrow> (sensors_event \<Rightarrow> sensors_event) \<Rightarrow> CwMcuSensor \<Rightarrow> error + CwMcuSensor" where
  "set_slot i f s =
     (if i < length (mPendingEvents s)
      then Inr (s\<lparr>mPendingEvents := (mPendingEvents s)[i := f (mPendingEvents s ! i)]\<rparr>)
      else Inl IndexOutOfRange)"

definition get_slot :: "nat \<Rightarrow> CwMcuSensor \<Rightarrow> error + sensors_event" where
  "get_slot i s =
     (if i < length (mPendingEvents s) then Inr (mPendingEvents s ! i) else Inl IndexOutOfRange)"

text \<open>\<^verbatim>\<open>1 << i\<close> on a 32-bit \<^verbatim>\<open>int\<close>, read as the \<^verbatim>\<open>uint32_t\<close> it is combined with.\<close>

definition shl1 :: "int \<Rightarrow> error + 32 word" where
  "shl1 i = (if 0 \<le> i \<and> i < 32 then Inr (push_bit (nat i) 1) else Inl ShiftOutOfRange)"

subsection \<open>The lookup switches\<close>

text \<open>
  A \<^verbatim>\<open>switch\<close> over enumerators or handles selects the first label equal to the value
  (C++ admits no two equal labels); \<open>find\<close> over the labels in the order of the source
  does the same.
\<close>

definition id_of_tag :: "header \<Rightarrow> int \<Rightarrow> CW_SENSORS_ID option" where
  "id_of_tag h v = find (\<lambda>k. int (tag h k) = v) all_ids"

definition find_handle :: "header \<Rightarrow> int \<Rightarrow> int" where
  "find_handle h sensors_id =
     (case find (\<lambda>k. int (tag h k) = sensors_id)
        [CW_ACCELERATION, CW_MAGNETIC, CW_GYRO, CW_PRESSURE, CW_ORIENTATION,
         CW_ROTATIONVECTOR, CW_LINEARACCELERATION, CW_GRAVITY, CW_MAGNETIC_UNCALIBRATED,
         CW_GYROSCOPE_UNCALIBRATED, CW_GAME_ROTATION_VECTOR, CW_GEOMAGNETIC_ROTATION_VECTOR,
         CW_LIGHT, CW_STEP_DETECTOR, CW_STEP_COUNTER, HTC_WAKE_UP_GESTURE] of
        Some k \<Rightarrow> ID h k
      | None \<Rightarrow> 0xFF)"

definition find_sensor :: "header \<Rightarrow> int \<Rightarrow> int" where
  "find_sensor h handle =
     (case find (\<lambda>k. ID h k = handle)
        [CW_ACCELERATION, CW_MAGNETIC, CW_GYRO, CW_PRESSURE, CW_ORIENTATION,
         CW_ROTATIONVECTOR, CW_LINEARACCELERATION, CW_GRAVITY, CW_MAGNETIC_UNCALIBRATED,
         CW_GYROSCOPE_UNCALIBRATED, CW_GAME_ROTATION_VECTOR, CW_GEOMAGNETIC_ROTATION_VECTOR,
         CW_SIGNIFICANT_MOTION, CW_STEP_DETECTOR, CW_STEP_COUNTER, CW_LIGHT,
         HTC_WAKE_UP_GESTURE] of
        Some k \<Rightarrow> int (tag h k)
      | None \<Rightarrow> - 1)"

text \<open>\<^verbatim>\<open>uint32_t(what)\<close> of an \<^verbatim>\<open>int\<close>.\<close>

definition uint32_t :: "int \<Rightarrow> nat" where
  "uint32_t what = nat (what mod 2 ^ 32)"

definition bindE :: "error + 'a \<Rightarrow> ('a \<Rightarrow> error + 'b) \<Rightarrow> error + 'b" where
  "bindE m f = (case m of Inl e \<Rightarrow> Inl e | Inr x \<Rightarrow> f x)"

subsection \<open>The control operations\<close>

text \<open>C division of 64-bit integers truncates towards zero; an \<^verbatim>\<open>int\<close> keeps the low 32 bits.\<close>

definition c_div :: "int \<Rightarrow> int \<Rightarrow> int" where
  "c_div a b = sgn a * sgn b * (\<bar>a\<bar> div \<bar>b\<bar>)"

definition to_int32 :: "int \<Rightarrow> int" where
  "to_int32 v = sint (word_of_int v :: 32 word)"

definition sync_timestamp_locked :: "header \<Rightarrow> CwMcuSensor \<Rightarrow> int \<times> CwMcuSensor" where
  "sync_timestamp_locked h s0 =
     (let s = s0\<lparr>fixed_sysfs_path := ''flush''\<rparr>
      in case open_write ''flush'' [TIMESTAMP_SYNC_CODE h] (env s) of
           ((opened, wrote), w) \<Rightarrow>
             (if opened
              then if \<not> wrote then (- EIO, s\<lparr>env := w\<rparr>)
                   else (case getTimestamp w of
                           (t, w1) \<Rightarrow> (0, s\<lparr>l_timestamp := t, env := w1\<rparr>))
              else (- ENOENT, s\<lparr>env := w\<rparr>)))"

definition sync_timestamp :: "header \<Rightarrow> CwMcuSensor \<Rightarrow> int \<times> CwMcuSensor" where
  "sync_timestamp h s = sync_timestamp_locked h s"

text \<open>The part of \<^verbatim>\<open>setEnable\<close> under \<^verbatim>\<open>fd = open(fixed_sysfs_path, O_RDWR)\<close>.\<close>

definition setEnable_store :: "int \<Rightarrow> int \<Rightarrow> CwMcuSensor \<Rightarrow> error + CwMcuSensor" where
  "setEnable_store what flags s =
     (case open_write ''enable'' [what, flags] (env s) of
        ((opened, wrote), w) \<Rightarrow>
          (if opened
           then bindE (shl1 what)
                  (\<lambda>bit.
                     let m = (mEnabled s AND NOT bit) OR push_bit (nat what) (word_of_int flags);
                         s1 = s\<lparr>mEnabled := m, env := w\<rparr>
                     in Inr (if m = 0
                             then s1\<lparr>env := snd (sysfs_set_input_attr_by_int ''buffer/enable'' 0 w)\<rparr>
                             else s1))
           else Inr (s\<lparr>env := w\<rparr>)))"

text \<open>The part of \<^verbatim>\<open>setEnable\<close> under ``Sensor Calibration init''.\<close>

definition setEnable_calibration :: "header \<Rightarrow> int \<Rightarrow> int \<Rightarrow> CwMcuSensor \<Rightarrow> CwMcuSensor" where
  "setEnable_calibration h what flags s =
     (if (what = int (tag h CW_MAGNETIC) \<and> flags = 0) \<or>
         (what = int (tag h CW_ORIENTATION) \<and> flags = 0) \<or>
         (what = int (tag h CW_ROTATIONVECTOR) \<and> flags = 0)
      then s\<lparr>fixed_sysfs_path := ''calibrator_data_mag'',
             env := copy_calibration ''calibrator_data_mag'' ''SAVE_PATH_MAG'' (env s)\<rparr>
      else s)"

definition setEnable :: "header \<Rightarrow> int \<Rightarrow> int \<Rightarrow> CwMcuSensor \<Rightarrow> error + (int \<times> CwMcuSensor)" where
  "setEnable h handle en s0 =
     (let flags = (if en \<noteq> 0 then 1 else 0);
          s = s0\<lparr>fill_block_debug := (if fill_block_prop (env s0) = 1 then 1 else 0)\<rparr>;
          what = find_sensor h handle
      in if uint32_t what \<ge> numSensors h then Inr (- EINVAL, s)
         else bindE (setEnable_store what flags (s\<lparr>fixed_sysfs_path := ''enable''\<rparr>))
                (\<lambda>s1. Inr (0, setEnable_calibration h what flags s1)))"

definition setDelay :: "header \<Rightarrow> int \<Rightarrow> int \<Rightarrow> CwMcuSensor \<Rightarrow> int \<times> CwMcuSensor" where
  "setDelay h handle delay_ns s =
     (let what = find_sensor h handle
      in if uint32_t what \<ge> numSensors h then (- EINVAL, s)
         else (let s1 = s\<lparr>fixed_sysfs_path := ''delay_ms''\<rparr>
               in (0, s1\<lparr>env := snd (open_write ''delay_ms'' [what, c_div delay_ns NS_PER_MS]
                                        (env s1))\<rparr>)))"

text \<open>The part of \<^verbatim>\<open>batch\<close> under \<^verbatim>\<open>if (!mEnabled)\<close>.\<close>

definition batch_start_buffer :: "CwMcuSensor \<Rightarrow> CwMcuSensor" where
  "batch_start_buffer s =
     (let w1 = snd (sysfs_set_input_attr_by_int ''buffer/length'' (int IIO_MAX_BUFF_SIZE) (env s));
          (done, w2) =
            (if \<not> init_trigger_done s
             then (case sysfs_set_input_attr ''trigger/current_trigger'' [] w1 of
                     (err, w) \<Rightarrow> (\<not> err < 0, w))
             else (True, w1));
          w3 = snd (sysfs_set_input_attr_by_int ''buffer/enable'' 1 w2)
      in s\<lparr>init_trigger_done := done, env := w3\<rparr>)"

definition batch ::
  "header \<Rightarrow> int \<Rightarrow> int \<Rightarrow> int \<Rightarrow> int \<Rightarrow> CwMcuSensor \<Rightarrow> int \<times> CwMcuSensor" where
  "batch h handle flags period_ns timeout s =
     (let what = find_sensor h handle;
          delay_ms = to_int32 (c_div period_ns NS_PER_MS);
          timeout_ms = to_int32 (c_div timeout NS_PER_MS);
          dryRun = ((word_of_int flags :: 32 word) AND word_of_int SENSORS_BATCH_DRY_RUN \<noteq> 0)
      in if uint32_t what \<ge> CW_SENSORS_ID_END h then (- EINVAL, s)
         else if (what = int (tag h CW_LIGHT) \<or> what = int (tag h CW_SIGNIFICANT_MOTION))
                 \<and> timeout > 0
         then (- EINVAL, s)
         else if dryRun then (0, s)
         else (let s1 = (if mEnabled s = 0 then batch_start_buffer s else s);
                   s2 = snd (sync_timestamp_locked h s1);
                   s3 = s2\<lparr>fixed_sysfs_path := ''batch_enable''\<rparr>;
                   k = opens (env s3)
               in case open_write ''batch_enable'' [what, flags, delay_ms, timeout_ms] (env s3) of
                    ((opened, wrote), w) \<Rightarrow>
                      ((if opened \<and> wrote then 0 else - errno_of (env s3) k), s3\<lparr>env := w\<rparr>)))"

definition flush :: "header \<Rightarrow> int \<Rightarrow> CwMcuSensor \<Rightarrow> int \<times> CwMcuSensor" where
  "flush h handle s0 =
     (let what = find_sensor h handle;
          s = s0\<lparr>mFlushSensorEnabled := handle\<rparr>
      in if uint32_t what \<ge> CW_SENSORS_ID_END h then (- EINVAL, s)
         else (let s1 = s\<lparr>fixed_sysfs_path := ''flush''\<rparr>;
                   k = opens (env s1)
               in case open_write ''flush'' [what] (env s1) of
                    ((opened, wrote), w) \<Rightarrow>
                      ((if opened then (if wrote then 0 else - errno_of (env s1) k) else - EINVAL),
                       s1\<lparr>env := w\<rparr>)))"

subsection \<open>The record decoder\<close>

text \<open>
  \<^verbatim>\<open>memcpy\<close> of two, four and eight bytes into \<^verbatim>\<open>int16_t\<close>, \<^verbatim>\<open>int32_t\<close> and \<^verbatim>\<open>int64_t\<close> on the
  little-endian target.
\<close>

definition le16 :: "8 word \<Rightarrow> 8 word \<Rightarrow> 16 word" where
  "le16 lo hi = push_bit 8 (ucast hi) OR ucast lo"

definition le32 :: "16 word \<Rightarrow> 16 word \<Rightarrow> 32 word" where
  "le32 lo hi = push_bit 16 (ucast hi) OR ucast lo"

definition le64 :: "8 word list \<Rightarrow> 64 word" where
  "le64 bs = foldr (\<lambda>b acc. push_bit 8 acc OR ucast b) bs 0"

text \<open>\<^verbatim>\<open>(float)v\<close> of an \<^verbatim>\<open>int16_t\<close>, and the \<^verbatim>\<open>size_t\<close> an \<^verbatim>\<open>int16_t\<close> argument converts to.\<close>

definition float16 :: "16 word \<Rightarrow> real" where
  "float16 v = real_of_int (sint v)"

definition size_t16 :: "16 word \<Rightarrow> nat" where
  "size_t16 v = unat (scast v :: 64 word)"

text \<open>\<^verbatim>\<open>data[0] = f 0; data[1] = f 1; data[2] = f 2\<close> on one event.\<close>

definition store3 :: "(nat \<Rightarrow> real) \<Rightarrow> sensors_event \<Rightarrow> sensors_event" where
  "store3 f e = e\<lparr>data := (data e)(0 := f 0, 1 := f 1, 2 := f 2)\<rparr>"

text \<open>\<^verbatim>\<open>mPendingMask |= 1 << sensorsid\<close>.\<close>

definition set_pending :: "nat \<Rightarrow> CwMcuSensor \<Rightarrow> error + CwMcuSensor" where
  "set_pending sensorsid s =
     bindE (shl1 (int sensorsid)) (\<lambda>bit. Inr (s\<lparr>mPendingMask := mPendingMask s OR bit\<rparr>))"

text \<open>
  The \<^verbatim>\<open>switch (sensorsid)\<close> of \<^verbatim>\<open>processEvent\<close>, one equation for each label in the order
  of the source; \<open>None\<close> is the \<^verbatim>\<open>default\<close> label.
\<close>

fun decode ::
  "header \<Rightarrow> CW_SENSORS_ID option \<Rightarrow> nat \<Rightarrow> (nat \<Rightarrow> 16 word) \<Rightarrow> (nat \<Rightarrow> 16 word) \<Rightarrow>
   CwMcuSensor \<Rightarrow> error + CwMcuSensor" where
  "decode h (Some CW_ORIENTATION) sensorsid dat bias s =
     bindE (set_pending sensorsid s)
       (set_slot sensorsid
          (\<lambda>e. store3 (\<lambda>i. float16 (dat i) * CONVERT_10 h) (e\<lparr>status := ucast (bias 0)\<rparr>)))"
| "decode h (Some CW_ACCELERATION) sensorsid dat bias s =
     bindE (set_pending sensorsid s)
       (set_slot sensorsid (store3 (\<lambda>i. float16 (dat i) * CONVERT_100 h)))"
| "decode h (Some CW_MAGNETIC) sensorsid dat bias s =
     bindE (set_pending sensorsid s)
       (set_slot sensorsid
          (\<lambda>e. store3 (\<lambda>i. float16 (dat i) * CONVERT_100 h) (e\<lparr>status := ucast (bias 0)\<rparr>)))"
| "decode h (Some CW_GYRO) sensorsid dat bias s =
     bindE (set_pending sensorsid s)
       (set_slot sensorsid (store3 (\<lambda>i. float16 (dat i) * CONVERT_100 h)))"
| "decode h (Some CW_LINEARACCELERATION) sensorsid dat bias s =
     bindE (set_pending sensorsid s)
       (set_slot sensorsid (store3 (\<lambda>i. float16 (dat i) * CONVERT_100 h)))"
| "decode h (Some CW_GRAVITY) sensorsid dat bias s =
     bindE (set_pending sensorsid s)
       (set_slot sensorsid (store3 (\<lambda>i. float16 (dat i) * CONVERT_100 h)))"
| "decode h (Some CW_PRESSURE) sensorsid dat bias s =
     bindE (set_pending sensorsid s)
       (set_slot sensorsid
          (\<lambda>e. e\<lparr>data := (data e)
                  (0 := real_of_int (sint (le32 (dat 0) (dat 1))) * CONVERT_100 h,
                   2 := float16 (dat 2) * CONVERT_100 h)\<rparr>))"
| "decode h (Some CW_ROTATIONVECTOR) sensorsid dat bias s =
     bindE (set_pending sensorsid s)
       (set_slot sensorsid (store3 (\<lambda>i. float16 (dat i) * CONVERT_10000 h)))"
| "decode h (Some CW_GAME_ROTATION_VECTOR) sensorsid dat bias s =
     bindE (set_pending sensorsid s)
       (set_slot sensorsid (store3 (\<lambda>i. float16 (dat i) * CONVERT_10000 h)))"
| "decode h (Some CW_GEOMAGNETIC_ROTATION_VECTOR) sensorsid dat bias s =
     bindE (set_pending sensorsid s)
       (set_slot sensorsid (store3 (\<lambda>i. float16 (dat i) * CONVERT_10000 h)))"
| "decode h (Some CW_MAGNETIC_UNCALIBRATED) sensorsid dat bias s =
     bindE (set_pending sensorsid s)
       (set_slot sensorsid
          (\<lambda>e. e\<lparr>data := (data e)
                  (0 := float16 (dat 0) * CONVERT_100 h, 1 := float16 (dat 1) * CONVERT_100 h,
                   2 := float16 (dat 2) * CONVERT_100 h, 3 := float16 (bias 0) * CONVERT_100 h,
                   4 := float16 (bias 1) * CONVERT_100 h,
                   5 := float16 (bias 2) * CONVERT_100 h)\<rparr>))"
| "decode h (Some CW_GYROSCOPE_UNCALIBRATED) sensorsid dat bias s =
     bindE (set_pending sensorsid s)
       (set_slot sensorsid
          (\<lambda>e. e\<lparr>data := (data e)
                  (0 := float16 (dat 0) * CONVERT_100 h, 1 := float16 (dat 1) * CONVERT_100 h,
                   2 := float16 (dat 2) * CONVERT_100 h, 3 := float16 (bias 0) * CONVERT_100 h,
                   4 := float16 (bias 1) * CONVERT_100 h,
                   5 := float16 (bias 2) * CONVERT_100 h)\<rparr>))"
| "decode h (Some CW_SIGNIFICANT_MOTION) sensorsid dat bias s =
     bindE (set_pending sensorsid s) (set_slot sensorsid (store3 (\<lambda>i. float16 (dat i))))"
| "decode h (Some CW_LIGHT) sensorsid dat bias s =
     bindE (set_pending sensorsid s)
       (set_slot sensorsid (\<lambda>e. e\<lparr>data := (data e)(0 := indexToValue (size_t16 (dat 0)))\<rparr>))"
| "decode h (Some CW_STEP_DETECTOR) sensorsid dat bias s =
     bindE (set_pending sensorsid s)
       (\<lambda>s1. bindE (set_slot (tag h CW_STEP_COUNTER)
                       (\<lambda>e. e\<lparr>data := (data e)(0 := float16 (dat 0))\<rparr>) s1)
          (\<lambda>s2. case getTimestamp (env s2) of
                   (t, w) \<Rightarrow>
                     set_slot (tag h CW_STEP_DETECTOR) (\<lambda>e. e\<lparr>timestamp := t\<rparr>)
                       (s2\<lparr>env := w\<rparr>)))"
| "decode h (Some CW_STEP_COUNTER) sensorsid dat bias s =
     bindE (set_pending sensorsid s)
       (set_slot (tag h CW_STEP_COUNTER)
          (\<lambda>e. e\<lparr>step_counter := ucast (le32 (dat 0) (dat 1))\<rparr>))"
| "decode h (Some HTC_WAKE_UP_GESTURE) sensorsid dat bias s =
     bindE (set_pending sensorsid s)
       (set_slot (tag h HTC_WAKE_UP_GESTURE) (\<lambda>e. e\<lparr>data := (data e)(0 := 1)\<rparr>))"
| "decode h (Some CW_META_DATA) sensorsid dat bias s =
     Inr (s\<lparr>mPendingEventsFlush :=
              (mPendingEventsFlush s)\<lparr>meta_what := META_DATA_FLUSH_COMPLETE,
                                       meta_sensor := find_handle h (sint (dat 0))\<rparr>\<rparr>)"
| "decode h (Some CW_SYNC_ACK) sensorsid dat bias s =
     Inr (if sint (dat 0) = SYNC_ACK_MAGIC then s\<lparr>g_timestamp := l_timestamp s\<rparr> else s)"
| "decode h (Some TIME_DIFF_EXHAUSTED) sensorsid dat bias s =
     Inr (if sint (dat 0) = EXHAUSTED_MAGIC then snd (sync_timestamp h s) else s)"
| "decode h None sensorsid dat bias s = Inr s"

text \<open>
  The three \<^verbatim>\<open>memcpy\<close> of \<^verbatim>\<open>processEvent\<close>: \<^verbatim>\<open>data\<close> from byte 1, \<^verbatim>\<open>bias\<close> from byte 7 and
  \<^verbatim>\<open>time\<close> from byte 13 of the record.
\<close>

definition ev_data :: "8 word list \<Rightarrow> nat \<Rightarrow> 16 word" where
  "ev_data event i = le16 (event ! (1 + 2 * i)) (event ! (2 + 2 * i))"

definition ev_bias :: "8 word list \<Rightarrow> nat \<Rightarrow> 16 word" where
  "ev_bias event i = le16 (event ! (7 + 2 * i)) (event ! (8 + 2 * i))"

definition ev_time :: "8 word list \<Rightarrow> 64 word" where
  "ev_time event = le64 (take 8 (drop 13 event))"

definition processEvent ::
  "header \<Rightarrow> 8 word list \<Rightarrow> CwMcuSensor \<Rightarrow> error + (nat \<times> CwMcuSensor)" where
  "processEvent h event s =
     (let sensorsid = unat (event ! 0);
          dat = ev_data event;
          bias = ev_bias event;
          time = ev_time event
      in bindE (set_slot sensorsid (\<lambda>e. e\<lparr>timestamp := time\<rparr>) s)
           (\<lambda>s1. bindE (decode h (id_of_tag h (int sensorsid)) sensorsid dat bias s1)
                    (\<lambda>s2. Inr (sensorsid, s2))))"

subsection \<open>The derived quaternion component\<close>

text \<open>
  IEEE 754 arithmetic on \<^verbatim>\<open>float\<close> and \<^verbatim>\<open>double\<close>: the exact result of an operation is rounded
  to the nearest number with \<open>p\<close> significant bits, ties to the even significand.
  \<open>round_even\<close> rounds a real to the nearest integer, ties to even. \<open>float_exponent\<close>
  searches the binary exponent of \<open>x\<close> downwards from \<open>emax\<close> and stops at \<open>emin\<close>, the
  exponent of the subnormal numbers. A result beyond the largest finite number is kept
  as a finite number, where the hardware gives an infinity.
\<close>

definition round_even :: "real \<Rightarrow> int" where
  "round_even x =
     (let f = \<lfloor>x\<rfloor>; d = x - of_int f
      in if d < 1 / 2 then f else if 1 / 2 < d then f + 1 else if even f then f else f + 1)"

fun float_exponent :: "nat \<Rightarrow> int \<Rightarrow> real \<Rightarrow> int" where
  "float_exponent 0 e x = e"
| "float_exponent (Suc n) e x = (if 2 powi e \<le> x then e else float_exponent n (e - 1) x)"

definition round_float :: "nat \<Rightarrow> int \<Rightarrow> int \<Rightarrow> real \<Rightarrow> real" where
  "round_float p emin emax x =
     (let e = float_exponent (nat (emax - emin)) emax \<bar>x\<bar>;
          u = 2 powi (e - int p + 1)
      in of_int (round_even (x / u)) * u)"

definition binary32 :: "real \<Rightarrow> real" where
  "binary32 = round_float 24 (- 126) 127"

definition binary64 :: "real \<Rightarrow> real" where
  "binary64 = round_float 53 (- 1022) 1023"

text \<open>
  \<^verbatim>\<open>q0 = 1 - q1*q1 - q2*q2 - q3*q3\<close> on \<^verbatim>\<open>float\<close> operands, evaluated from the left with
  every product and difference rounded to binary32.
\<close>

definition rv_q0 :: "real \<Rightarrow> real \<Rightarrow> real \<Rightarrow> real" where
  "rv_q0 q1 q2 q3 =
     binary32 (binary32 (binary32 (1 - binary32 (q1 * q1)) - binary32 (q2 * q2))
               - binary32 (q3 * q3))"

text \<open>
  \<^verbatim>\<open>q0 = (q0 > 0) ? (float)sqrt(q0) : 0\<close>: the square root is taken in \<^verbatim>\<open>double\<close> and
  converted to \<^verbatim>\<open>float\<close>.
\<close>

definition rv_4th :: "real \<Rightarrow> real \<Rightarrow> real \<Rightarrow> real" where
  "rv_4th q1 q2 q3 =
     (let q0 = rv_q0 q1 q2 q3
      in if q0 > 0 then binary32 (binary64 (sqrt q0)) else 0)"

definition calculate_rv_4th_element :: "header \<Rightarrow> int \<Rightarrow> CwMcuSensor \<Rightarrow> error + CwMcuSensor" where
  "calculate_rv_4th_element h sensors_id s =
     (if sensors_id = int (tag h CW_ROTATIONVECTOR) \<or>
         sensors_id = int (tag h CW_GAME_ROTATION_VECTOR) \<or>
         sensors_id = int (tag h CW_GEOMAGNETIC_ROTATION_VECTOR)
      then set_slot (nat sensors_id)
             (\<lambda>e. e\<lparr>data := (data e)(3 := rv_4th (data e 0) (data e 1) (data e 2))\<rparr>) s
      else Inr s)"

subsection \<open>The dispatch loop\<close>

text \<open>
  Modelled from the spec: \<^verbatim>\<open>InputEventCircularReader::fill\<close> is missing from the sources.
  It ``reads as many whole records as fit into an internal ring buffer of fixed capacity
  (1024 records)'' and ``returns the number newly available, or a negative error code on
  a read failure''.
\<close>

definition fill :: "CwMcuSensor \<Rightarrow> int \<times> CwMcuSensor" where
  "fill s =
     (let w = env s
      in if device_error w < 0 then (device_error w, s)
         else (let room = IIO_MAX_BUFF_SIZE - length (mInputReader s);
                   new = take room (device_frames w)
               in (int (length new),
                   s\<lparr>mInputReader := mInputReader s @ new,
                     env := w\<lparr>device_frames := drop room (device_frames w)\<rparr>\<rparr>)))"

text \<open>
  The body of the \<^verbatim>\<open>while\<close> loop of \<^verbatim>\<open>readEvents\<close> without \<^verbatim>\<open>mInputReader.next()\<close>: the
  events written to \<^verbatim>\<open>*data++\<close> (none or one) and the new state.
\<close>

definition dispatch_one ::
  "header \<Rightarrow> 8 word list \<Rightarrow> CwMcuSensor \<Rightarrow> error + (sensors_event list \<times> CwMcuSensor)" where
  "dispatch_one h event s =
     bindE (processEvent h event s)
       (\<lambda>(id, s1).
          if id = tag h CW_META_DATA then Inr ([mPendingEventsFlush s1], s1)
          else (case getTimestamp (env s1) of
                  (t, w) \<Rightarrow>
                    bindE (set_slot id (\<lambda>e. e\<lparr>timestamp := t\<rparr>) (s1\<lparr>env := w\<rparr>))
                      (\<lambda>s2. bindE (shl1 (int id))
                         (\<lambda>bit.
                            if mEnabled s2 AND bit \<noteq> 0
                            then bindE (if id = tag h CW_SIGNIFICANT_MOTION
                                        then bindE (setEnable h (ID h CW_SIGNIFICANT_MOTION) 0 s2)
                                               (\<lambda>(rc, s3). Inr s3)
                                        else Inr s2)
                                   (\<lambda>s3. bindE (calculate_rv_4th_element h (int id) s3)
                                      (\<lambda>s4. bindE (get_slot id s4) (\<lambda>e. Inr ([e], s4))))
                            else Inr ([], s2)))))"

text \<open>
  \<^verbatim>\<open>while (count && mInputReader.readEvent(&event)) { ...; mInputReader.next(); }\<close> over the
  buffered records: the events written, the records left in the reader and the state.
\<close>

fun dispatch_loop ::
  "header \<Rightarrow> 8 word list list \<Rightarrow> nat \<Rightarrow> CwMcuSensor \<Rightarrow>
   error + (sensors_event list \<times> 8 word list list \<times> CwMcuSensor)" where
  "dispatch_loop h [] count s = Inr ([], [], s)"
| "dispatch_loop h (event # rest) count s =
     (if count = 0 then Inr ([], event # rest, s)
      else bindE (dispatch_one h event s)
             (\<lambda>(out, s1).
                bindE (dispatch_loop h rest (count - length out) s1)
                  (\<lambda>(outs, left, s2). Inr (out @ outs, left, s2))))"

text \<open>
  \<^verbatim>\<open>readEvents\<close>: the value returned (\<^verbatim>\<open>numEventReceived\<close>, which counts the events written,
  or a negative error), the events written to \<^verbatim>\<open>data\<close> and the new state.
\<close>

definition readEvents ::
  "header \<Rightarrow> int \<Rightarrow> CwMcuSensor \<Rightarrow> error + (int \<times> sensors_event list \<times> CwMcuSensor)" where
  "readEvents h count s0 =
     (let s = s0\<lparr>env := snd (getTimestamp (env s0))\<rparr>
      in if count < 1 then Inr (- EINVAL, [], s)
         else (case fill s of
                 (n, s1) \<Rightarrow>
                   if n < 0 then Inr (n, [], s1)
                   else bindE (dispatch_loop h (mInputReader s1) (nat count) s1)
                          (\<lambda>(outs, left, s2).
                             Inr (int (length outs), outs, s2\<lparr>mInputReader := left\<rparr>))))"

text \<open>
  The body of the loop applied to every record of a list in turn, with no budget: the
  events each record writes, record by record, and the state after the last one. It
  serves to say which records a call of \<^verbatim>\<open>readEvents\<close> has processed.
\<close>

fun dispatch_all ::
  "header \<Rightarrow> 8 word list list \<Rightarrow> CwMcuSensor \<Rightarrow>
   error + (sensors_event list list \<times> CwMcuSensor)" where
  "dispatch_all h [] s = Inr ([], s)"
| "dispatch_all h (event # rest) s =
     bindE (dispatch_one h event s)
       (\<lambda>(out, s1). bindE (dispatch_all h rest s1) (\<lambda>(outss, s2). Inr (out # outss, s2)))"

subsection \<open>Sample constants, environment and states\<close>

text \<open>
  One assignment of the header's constants, for the concrete evaluations below: the
  sensors have the tags 0 to 22 and table positions below \<open>numSensors = 23\<close>, the three
  protocol records the tags 97 to 99, and the handles are numbered in the order of the
  enumeration. The scale factors are those of the spec (0.1, 0.01 and 0.0001).
\<close>

fun sample_tag :: "CW_SENSORS_ID \<Rightarrow> nat" where
  "sample_tag CW_ACCELERATION = 0"
| "sample_tag CW_MAGNETIC = 1"
| "sample_tag CW_GYRO = 2"
| "sample_tag CW_LIGHT = 3"
| "sample_tag CW_PRESSURE = 5"
| "sample_tag CW_ORIENTATION = 6"
| "sample_tag CW_ROTATIONVECTOR = 7"
| "sample_tag CW_LINEARACCELERATION = 8"
| "sample_tag CW_GRAVITY = 9"
| "sample_tag HTC_WAKE_UP_GESTURE = 10"
| "sample_tag CW_MAGNETIC_UNCALIBRATED = 16"
| "sample_tag CW_GYROSCOPE_UNCALIBRATED = 17"
| "sample_tag CW_GAME_ROTATION_VECTOR = 18"
| "sample_tag CW_GEOMAGNETIC_ROTATION_VECTOR = 19"
| "sample_tag CW_SIGNIFICANT_MOTION = 20"
| "sample_tag CW_STEP_DETECTOR = 21"
| "sample_tag CW_STEP_COUNTER = 22"
| "sample_tag TIME_DIFF_EXHAUSTED = 97"
| "sample_tag CW_SYNC_ACK = 98"
| "sample_tag CW_META_DATA = 99"

fun sample_ID :: "CW_SENSORS_ID \<Rightarrow> int" where
  "sample_ID CW_ACCELERATION = 0"
| "sample_ID CW_MAGNETIC = 1"
| "sample_ID CW_GYRO = 2"
| "sample_ID CW_LIGHT = 3"
| "sample_ID CW_PRESSURE = 4"
| "sample_ID CW_ORIENTATION = 5"
| "sample_ID CW_ROTATIONVECTOR = 6"
| "sample_ID CW_LINEARACCELERATION = 7"
| "sample_ID CW_GRAVITY = 8"
| "sample_ID HTC_WAKE_UP_GESTURE = 9"
| "sample_ID CW_MAGNETIC_UNCALIBRATED = 10"
| "sample_ID CW_GYROSCOPE_UNCALIBRATED = 11"
| "sample_ID CW_GAME_ROTATION_VECTOR = 12"
| "sample_ID CW_GEOMAGNETIC_ROTATION_VECTOR = 13"
| "sample_ID CW_SIGNIFICANT_MOTION = 14"
| "sample_ID CW_STEP_DETECTOR = 15"
| "sample_ID CW_STEP_COUNTER = 16"
| "sample_ID TIME_DIFF_EXHAUSTED = - 1"
| "sample_ID CW_SYNC_ACK = - 1"
| "sample_ID CW_META_DATA = - 1"

definition sample_header :: header where
  "sample_header =
     \<lparr>tag = sample_tag, CW_SENSORS_ID_END = 23, numSensors = 23, ID = sample_ID,
      CONVERT_10 = 1 / 10, CONVERT_100 = 1 / 100, CONVERT_10000 = 1 / 10000,
      TIMESTAMP_SYNC_CODE = 98\<rparr>"

text \<open>
  An environment whose clock shows 1000, 1001, ... and whose files can be opened and
  written or not, as \<open>ok\<close> says.
\<close>

definition sample_world :: "bool \<Rightarrow> world" where
  "sample_world ok =
     \<lparr>now = (\<lambda>n. 1000 + of_nat n), clock_reads = 0, open_succeeds = (\<lambda>n. ok),
      write_succeeds = (\<lambda>n. ok), errno_of = (\<lambda>n. 13), opens = 0, written = [],
      fill_block_prop = 1, device_frames = [], device_error = 0\<rparr>"

text \<open>The same environment, but only the first \<^verbatim>\<open>open\<close> of a file succeeds.\<close>

definition sample_world_once :: world where
  "sample_world_once = (sample_world True)\<lparr>open_succeeds := (\<lambda>n. n = 0)\<rparr>"

definition zero_event :: sensors_event where
  "zero_event =
     \<lparr>version = 0, sensor = 0, etype = 0, timestamp = 0, data = (\<lambda>i. 0), status = 0,
      step_counter = 0, meta_what = 0, meta_sensor = 0\<rparr>"

text \<open>
  A driver with a table of \<open>n\<close> zeroed slots (the number of slots is declared in the
  missing header), the enabled mask \<open>m\<close> and the buffered records \<open>q\<close>.
\<close>

definition sample_state :: "nat \<Rightarrow> 32 word \<Rightarrow> 8 word list list \<Rightarrow> bool \<Rightarrow> CwMcuSensor" where
  "sample_state n m q ok =
     \<lparr>mEnabled = m, mPendingMask = 0, mPendingEvents = replicate n zero_event,
      mPendingEventsFlush = zero_event, mFlushSensorEnabled = - 1, l_timestamp = 0,
      g_timestamp = 0, init_trigger_done = False, fill_block_debug = 0,
      fixed_sysfs_path = [], mInputReader = q, env = sample_world ok\<rparr>"

text \<open>
  A 24-byte record: the tag, the low bytes of the three primary values (their high bytes
  are 0), zero bias values and a device timestamp of one byte.
\<close>

definition sample_record :: "8 word \<Rightarrow> 8 word \<Rightarrow> 8 word \<Rightarrow> 8 word \<Rightarrow> 8 word \<Rightarrow> 8 word list" where
  "sample_record t x y z time =
     [t, x, 0, y, 0, z, 0, 0, 0, 0, 0, 0, 0, time, 0, 0, 0, 0, 0, 0, 0, 0, 0, 0]"

text \<open>
  The 23-slot driver whose slots all hold the components \<open>x\<close>, \<open>y\<close>, \<open>z\<close> in
  \<^verbatim>\<open>data[0..2]\<close>.
\<close>

definition rv_state :: "real \<Rightarrow> real \<Rightarrow> real \<Rightarrow> CwMcuSensor" where
  "rv_state x y z =
     (sample_state 23 0 [] True)
       \<lparr>mPendingEvents :=
          replicate 23 (zero_event\<lparr>data := (data zero_event)(0 := x, 1 := y, 2 := z)\<rparr>)\<rparr>"

subsection \<open>Decoding followed by finalization\<close>

text \<open>
  The spec's \<open>decode\<close> then \<open>finalize\<close> on one record: \<^verbatim>\<open>processEvent\<close> and then
  \<^verbatim>\<open>calculate_rv_4th_element\<close> on the identifier it returns.
\<close>

definition decode_finalize :: "header \<Rightarrow> 8 word list \<Rightarrow> CwMcuSensor \<Rightarrow> error + CwMcuSensor" where
  "decode_finalize h event s =
     bindE (processEvent h event s) (\<lambda>(id, s1). calculate_rv_4th_element h (int id) s1)"

text \<open>The enumerators that name a sensor, as opposed to the three protocol records.\<close>

fun is_sensor :: "CW_SENSORS_ID \<Rightarrow> bool" where
  "is_sensor TIME_DIFF_EXHAUSTED = False"
| "is_sensor CW_SYNC_ACK = False"
| "is_sensor CW_META_DATA = False"
| "is_sensor k = True"

text \<open>
  The labels of a \<^verbatim>\<open>switch\<close> are distinct, so the file compiles only with a header
  whose enumerators have distinct values.
\<close>

definition wf_header :: "header \<Rightarrow> bool" where
  "wf_header h = distinct (map (tag h) all_ids)"

text \<open>The three labels of the \<^verbatim>\<open>switch\<close> in \<^verbatim>\<open>calculate_rv_4th_element\<close>.\<close>

definition is_rv :: "header \<Rightarrow> int \<Rightarrow> bool" where
  "is_rv h sensors_id =
     (sensors_id = int (tag h CW_ROTATIONVECTOR) \<or>
      sensors_id = int (tag h CW_GAME_ROTATION_VECTOR) \<or>
      sensors_id = int (tag h CW_GEOMAGNETIC_ROTATION_VECTOR))"

section \<open>Properties\<close>

subsection \<open>Basic facts\<close>

lemma bindE_simps [simp]:
  "bindE (Inl e) f = Inl e"
  "bindE (Inr x) f = f x"
  by (simp_all add: bindE_def)

lemma size_t16_negative:
  assumes neg: "sint v < 0"
  shows "10 \<le> size_t16 v"
proof -
  have lo: "- (2 ^ 15) \<le> sint v"
    using sint_ge [of v] by simp
  have a: "(scast v :: 64 word) = word_of_int (sint v)"
    by (rule scast_eq)
  have b: "uint (word_of_int (sint v) :: 64 word) = sint v mod 2 ^ 64"
    unfolding uint_word_of_int by simp
  have c: "sint v mod 2 ^ 64 = sint v + 2 ^ 64"
  proof -
    have "(sint v + 2 ^ 64) mod 2 ^ 64 = sint v + 2 ^ 64"
      using neg lo by (intro mod_pos_pos_trivial) simp_all
    then show ?thesis by simp
  qed
  have "unat (scast v :: 64 word) = nat (sint v + 2 ^ 64)"
    unfolding a unat_eq_nat_uint b c ..
  then show ?thesis
    using lo by (simp add: size_t16_def)
qed

lemma indexToValue_mono: "i \<le> j \<Longrightarrow> indexToValue i \<le> indexToValue j"
  unfolding indexToValue_def Let_def LIGHTSENSOR_LEVEL_def
  by (auto simp: luxValues_def nth_Cons')

lemma processEvent_bad_index:
  "length (mPendingEvents s) \<le> unat (event ! 0) \<Longrightarrow>
   processEvent h event s = Inl IndexOutOfRange"
  by (simp add: processEvent_def set_slot_def)

lemma processEvent_out_of_range_reachable:
  assumes "length (mPendingEvents s) < 256"
  shows "\<exists>event. length event = 24 \<and> processEvent h event s = Inl IndexOutOfRange \<and>
    dispatch_one h event s = Inl IndexOutOfRange"
proof -
  have "length (mPendingEvents s) \<le> unat (sample_record 255 0 0 0 0 ! 0)"
    using assms by (simp add: sample_record_def)
  then have "processEvent h (sample_record 255 0 0 0 0) s = Inl IndexOutOfRange"
    by (rule processEvent_bad_index)
  then show ?thesis
    by (intro exI [of _ "sample_record 255 0 0 0 0"])
      (simp add: dispatch_one_def sample_record_def)
qed

subsection \<open>The light table (C6)\<close>

lemma indexToValue_values:
  "map indexToValue [0..<10] = [0, 10, 40, 90, 160, 225, 320, 640, 1280, 2600]"
proof -
  have "[0..<10] = [0, 1, 2, 3, 4, 5, 6, 7, 8, 9 :: nat]"
    by code_simp
  then show ?thesis
    by (simp add: indexToValue_def luxValues_def LIGHTSENSOR_LEVEL_def)
qed

text \<open>
  C6. The light lookup returns the ten values 0, 10, 40, 90, 160, 225, 320, 640, 1280,
  2600 lux for the indices 0 to 9, in this order: index 0 gives 0 lux and index 9 gives
  2600 lux. Every index of 10 or more gives 2600 lux; this includes a negative \<^verbatim>\<open>int16_t\<close>
  value of the record, which reaches \<^verbatim>\<open>indexToValue\<close> as a large \<^verbatim>\<open>size_t\<close>. The table
  \<^verbatim>\<open>luxValues\<close> has exactly these ten entries, it is strictly increasing and the lookup is
  monotonic.
\<close>

theorem indexToValue_table:
  "indexToValue 0 = 0 \<and> indexToValue 9 = 2600 \<and> (\<forall>i. 10 \<le> i \<longrightarrow> indexToValue i = 2600) \<and>
   (\<forall>v. sint v < 0 \<longrightarrow> indexToValue (size_t16 v) = 2600) \<and>
   luxValues = [0, 10, 40, 90, 160, 225, 320, 640, 1280, 2600] \<and>
   length luxValues = LIGHTSENSOR_LEVEL \<and> sorted_wrt (<) luxValues \<and>
   (\<forall>i j. i \<le> j \<longrightarrow> indexToValue i \<le> indexToValue j) \<and>
   map indexToValue [0..<10] = [0, 10, 40, 90, 160, 225, 320, 640, 1280, 2600]"
proof -
  have clamp: "indexToValue i = 2600" if "10 \<le> i" for i
    using that by (simp add: indexToValue_def luxValues_def LIGHTSENSOR_LEVEL_def)
  have neg: "indexToValue (size_t16 v) = 2600" if "sint v < 0" for v
    using that by (intro clamp size_t16_negative)
  have rest: "indexToValue 0 = 0 \<and> indexToValue 9 = 2600 \<and>
      luxValues = [0, 10, 40, 90, 160, 225, 320, 640, 1280, 2600] \<and>
      length luxValues = LIGHTSENSOR_LEVEL \<and> sorted_wrt (<) luxValues"
    by (simp add: indexToValue_def luxValues_def LIGHTSENSOR_LEVEL_def)
  show ?thesis
    using clamp neg rest indexToValue_mono indexToValue_values by blast
qed

theorem indexToValue_table_witness:
  "indexToValue 0 = 0 \<and> indexToValue 9 = 2600 \<and> indexToValue 12 = 2600 \<and>
   indexToValue (size_t16 (- 1)) = 2600 \<and> indexToValue 3 \<le> indexToValue 7 \<and>
   map indexToValue [0..<10] = [0, 10, 40, 90, 160, 225, 320, 640, 1280, 2600]"
proof -
  have "sint (- 1 :: 16 word) < 0"
    by simp
  then show ?thesis
    using indexToValue_table by simp
qed

subsection \<open>Table indices (C1)\<close>

text \<open>
  C1. The claim is that no 24-byte record makes \<^verbatim>\<open>processEvent\<close> or \<^verbatim>\<open>readEvents\<close> access
  a slot outside the table. The code writes \<^verbatim>\<open>mPendingEvents[sensorsid].timestamp\<close>
  before the \<^verbatim>\<open>switch\<close> looks at the tag, for every value of the tag byte. On a table of 23
  slots the record with the unknown tag 255 reaches the out-of-range access in
  \<^verbatim>\<open>processEvent\<close>, and so in the loop body of \<^verbatim>\<open>readEvents\<close>; so does a record with the tag 99,
  which the sample header gives to \<^verbatim>\<open>CW_META_DATA\<close>. By \<open>processEvent_out_of_range_reachable\<close>
  such a record exists for every table of fewer than 256 slots, whatever the header.
\<close>

theorem processEvent_tag_out_of_range:
  "processEvent sample_header (sample_record 255 5 0 0 7) (sample_state 23 0 [] True)
     = Inl IndexOutOfRange \<and>
   processEvent sample_header (sample_record 99 0 0 0 7) (sample_state 23 0 [] True)
     = Inl IndexOutOfRange \<and>
   dispatch_one sample_header (sample_record 255 5 0 0 7) (sample_state 23 0 [] True)
     = Inl IndexOutOfRange \<and>
   readEvents sample_header 1 (sample_state 23 0 [sample_record 255 5 0 0 7] True)
     = Inl IndexOutOfRange"
  by (simp add: readEvents_def fill_def Let_def getTimestamp_def dispatch_one_def
      processEvent_bad_index sample_record_def sample_state_def sample_world_def
      IIO_MAX_BUFF_SIZE_def)

lemma find_distinct_map:
  "distinct (map f xs) \<Longrightarrow> k \<in> set xs \<Longrightarrow> find (\<lambda>x. int (f x) = int (f k)) xs = Some k"
  by (induction xs) auto

lemma all_ids_complete: "k \<in> set all_ids"
  by (cases k) (simp_all add: all_ids_def)

lemma id_of_tag_tag: "wf_header h \<Longrightarrow> id_of_tag h (int (tag h k)) = Some k"
  unfolding wf_header_def id_of_tag_def
  by (rule find_distinct_map) (simp_all add: all_ids_complete)

lemma wf_header_inj:
  assumes "wf_header h" "tag h j = tag h k"
  shows "j = k"
proof -
  have "Some j = id_of_tag h (int (tag h j))"
    using assms(1) by (simp only: id_of_tag_tag)
  also have "\<dots> = Some k"
    using assms by (simp only: id_of_tag_tag)
  finally show ?thesis by simp
qed

subsection \<open>The fourth quaternion component (C5)\<close>


lemma round_even_bounds:
  "(0 \<le> x \<longrightarrow> 0 \<le> round_even x) \<and> (x \<le> 0 \<longrightarrow> round_even x \<le> 0) \<and>
   (of_int n \<le> x \<longrightarrow> n \<le> round_even x) \<and> (x \<le> of_int n \<longrightarrow> round_even x \<le> n)"
  unfolding round_even_def Let_def by (auto simp: le_floor_iff floor_le_iff) linarith+

lemma float_exponent_normal:
  "2 powi e \<le> x \<Longrightarrow> x < 2 powi (e + 1) \<Longrightarrow> e \<le> emax \<Longrightarrow> emax - int n \<le> e \<Longrightarrow>
   float_exponent n emax x = e"
proof (induction n arbitrary: emax)
  case 0
  then show ?case by simp
next
  case (Suc n)
  show ?case
  proof (cases "2 powi emax \<le> x")
    case True
    with Suc.prems(2) have "(2::real) powi emax < 2 powi (e + 1)"
      by simp
    then have "emax < e + 1"
      by (metis linorder_not_less one_le_numeral power_int_increasing)
    with Suc.prems(3) True show ?thesis by simp
  next
    case False
    with Suc.prems(1) have "e \<noteq> emax" by auto
    with Suc.prems(3,4) have "e \<le> emax - 1" "emax - 1 - int n \<le> e" by simp_all
    with Suc.IH [OF Suc.prems(1,2)] False show ?thesis by simp
  qed
qed

lemma float_exponent_range:
  "emax - int n \<le> float_exponent n emax x \<and> float_exponent n emax x \<le> emax"
proof (induction n arbitrary: emax)
  case 0
  then show ?case by simp
next
  case (Suc n)
  from Suc [of "emax - 1"] show ?case by auto
qed

lemma float_exponent_upper:
  "x < 2 powi (emax + 1) \<Longrightarrow> x < 2 powi (float_exponent n emax x + 1)"
  by (induction n arbitrary: emax) auto

lemma float_exponent_lower:
  "2 powi k \<le> x \<Longrightarrow> emax - int n \<le> k \<Longrightarrow> k \<le> emax \<Longrightarrow> k \<le> float_exponent n emax x"
proof (induction n arbitrary: emax)
  case 0
  then show ?case by simp
next
  case (Suc n)
  show ?case
  proof (cases "2 powi emax \<le> x")
    case True
    with Suc.prems show ?thesis by simp
  next
    case False
    with Suc.prems(1) have "k \<noteq> emax" by auto
    with Suc.prems have "k \<le> float_exponent n (emax - 1) x"
      by (intro Suc.IH) simp_all
    with False show ?thesis by simp
  qed
qed

lemma float_exponent_found:
  "float_exponent n emax x = emax - int n \<or> 2 powi (float_exponent n emax x) \<le> x"
proof (induction n arbitrary: emax)
  case 0
  then show ?case by simp
next
  case (Suc n)
  from Suc [of "emax - 1"] show ?case by auto
qed

lemma round_float_normal:
  assumes "2 powi e \<le> \<bar>x\<bar>" "\<bar>x\<bar> < 2 powi (e + 1)" "emin \<le> e" "e \<le> emax"
  shows "round_float p emin emax x =
    of_int (round_even (x / 2 powi (e - int p + 1))) * 2 powi (e - int p + 1)"
proof -
  have "float_exponent (nat (emax - emin)) emax \<bar>x\<bar> = e"
    using assms by (intro float_exponent_normal) simp_all
  then show ?thesis by (simp add: round_float_def Let_def)
qed

lemma binary32_normal:
  "2 powi e \<le> \<bar>x\<bar> \<Longrightarrow> \<bar>x\<bar> < 2 powi (e + 1) \<Longrightarrow> - 126 \<le> e \<Longrightarrow> e \<le> 127 \<Longrightarrow>
   binary32 x = of_int (round_even (x / 2 powi (e - 23))) * 2 powi (e - 23)"
  using round_float_normal [of e x "- 126" 127 24] by (simp add: binary32_def)

lemma binary64_normal:
  "2 powi e \<le> \<bar>x\<bar> \<Longrightarrow> \<bar>x\<bar> < 2 powi (e + 1) \<Longrightarrow> - 1022 \<le> e \<Longrightarrow> e \<le> 1023 \<Longrightarrow>
   binary64 x = of_int (round_even (x / 2 powi (e - 52))) * 2 powi (e - 52)"
  using round_float_normal [of e x "- 1022" 1023 53] by (simp add: binary64_def)

lemma binary32_0 [simp]: "binary32 0 = 0"
  by (simp add: binary32_def round_float_def round_even_def Let_def)

lemma binary32_1 [simp]: "binary32 1 = 1"
  by (subst binary32_normal [of 0]) (simp_all add: round_even_def)

lemma binary64_1 [simp]: "binary64 1 = 1"
  by (subst binary64_normal [of 0]) (simp_all add: round_even_def)

lemma round_float_sign:
  "(0 \<le> x \<longrightarrow> 0 \<le> round_float p emin emax x) \<and> (x \<le> 0 \<longrightarrow> round_float p emin emax x \<le> 0)"
  unfolding round_float_def Let_def
  using round_even_bounds
  by (auto simp: zero_le_mult_iff mult_le_0_iff zero_le_divide_iff divide_le_0_iff)

lemma binary32_sign: "(0 \<le> x \<longrightarrow> 0 \<le> binary32 x) \<and> (x \<le> 0 \<longrightarrow> binary32 x \<le> 0)"
  unfolding binary32_def by (rule round_float_sign)

lemma binary32_ge_1:
  assumes "1 \<le> x"
  shows "1 \<le> binary32 x"
proof -
  define e where "e = float_exponent (nat (127 - (- 126))) 127 \<bar>x\<bar>"
  have x: "\<bar>x\<bar> = x" "0 < x"
    using assms by simp_all
  have e0: "0 \<le> e"
    unfolding e_def using assms x by (intro float_exponent_lower) simp_all
  have "e = 127 - int (nat (127 - (- 126))) \<or> 2 powi e \<le> \<bar>x\<bar>"
    unfolding e_def by (rule float_exponent_found)
  with e0 have le: "2 powi e \<le> x"
    using x by auto
  have u: "(0::real) < 2 powi (e - 23)"
    by simp
  have split: "(2::real) powi e = 8388608 * 2 powi (e - 23)"
    using power_int_add [of "2::real" 23 "e - 23"] by simp
  have "of_int 8388608 \<le> x / 2 powi (e - 23)"
    using le u unfolding split by (simp add: pos_le_divide_eq)
  then have "8388608 \<le> round_even (x / 2 powi (e - 23))"
    using round_even_bounds by blast
  then have "(8388608::real) * 2 powi (e - 23) \<le> of_int (round_even (x / 2 powi (e - 23))) * 2 powi (e - 23)"
    using u by (intro mult_right_mono) simp_all
  moreover have "(1::real) \<le> 2 powi e"
    using e0 by simp
  moreover have "binary32 x = of_int (round_even (x / 2 powi (e - 23))) * 2 powi (e - 23)"
    by (simp add: binary32_def round_float_def Let_def e_def)
  ultimately show ?thesis
    using split by linarith
qed

lemma binary32_le_1:
  assumes "x \<le> 1"
  shows "binary32 x \<le> 1"
proof (cases "x \<le> 0")
  case True
  then have "binary32 x \<le> 0"
    using binary32_sign by blast
  then show ?thesis by simp
next
  case False
  show ?thesis
  proof (cases "x = 1")
    case True
    then show ?thesis by simp
  next
    case ne: False
    define e where "e = float_exponent (nat (127 - (- 126))) 127 \<bar>x\<bar>"
    have x: "\<bar>x\<bar> = x" "0 < x" "x < 1"
      using assms False ne by simp_all
    have "\<bar>x\<bar> < 2 powi (127 + 1)"
      using x by simp
    then have up: "x < 2 powi (e + 1)"
      unfolding e_def using float_exponent_upper [of "\<bar>x\<bar>" 127] x by simp
    have "e = 127 - int (nat (127 - (- 126))) \<or> 2 powi e \<le> \<bar>x\<bar>"
      unfolding e_def by (rule float_exponent_found)
    then have e1: "e + 1 \<le> 0"
    proof
      assume "e = 127 - int (nat (127 - (- 126)))"
      then show ?thesis by simp
    next
      assume "2 powi e \<le> \<bar>x\<bar>"
      then have "(2::real) powi e < 2 powi 0"
        using x by simp
      then have "e < 0"
        by (metis linorder_not_less one_le_numeral power_int_increasing)
      then show ?thesis by simp
    qed
    have u: "(0::real) < 2 powi (e - 23)"
      by simp
    have split: "(2::real) powi (e + 1) = 16777216 * 2 powi (e - 23)"
      using power_int_add [of "2::real" 24 "e - 23"] by (simp add: add.commute)
    have "x / 2 powi (e - 23) \<le> of_int 16777216"
      using up u unfolding split by (simp add: pos_divide_le_eq)
    then have "round_even (x / 2 powi (e - 23)) \<le> 16777216"
      using round_even_bounds by blast
    then have "of_int (round_even (x / 2 powi (e - 23))) * 2 powi (e - 23)
        \<le> (16777216::real) * 2 powi (e - 23)"
      using u by (intro mult_right_mono) simp_all
    moreover have "(2::real) powi (e + 1) \<le> 1"
      using e1 power_int_increasing [of "e + 1" 0 "2::real"] by simp
    moreover have "binary32 x = of_int (round_even (x / 2 powi (e - 23))) * 2 powi (e - 23)"
      by (simp add: binary32_def round_float_def Let_def e_def)
    ultimately show ?thesis
      using split by linarith
  qed
qed

lemma rv_q0_clamped:
  assumes "1 \<le> x * x \<or> 1 \<le> y * y \<or> 1 \<le> z * z"
  shows "rv_q0 x y z \<le> 0"
proof -
  define a b c where "a = binary32 (x * x)" and "b = binary32 (y * y)" and "c = binary32 (z * z)"
  define t1 t2 where "t1 = binary32 (1 - a)" and "t2 = binary32 (t1 - b)"
  have q: "rv_q0 x y z = binary32 (t2 - c)"
    by (simp add: rv_q0_def a_def b_def c_def t1_def t2_def)
  have pos: "0 \<le> a" "0 \<le> b" "0 \<le> c"
    using binary32_sign by (simp_all add: a_def b_def c_def)
  have t1: "t1 \<le> 1"
    unfolding t1_def using pos by (intro binary32_le_1) simp
  have t2: "t2 \<le> 1"
    unfolding t2_def using pos t1 by (intro binary32_le_1) simp
  have neg: "binary32 r \<le> 0" if "r \<le> 0" for r
    using that binary32_sign by blast
  from assms consider "1 \<le> x * x" | "1 \<le> y * y" | "1 \<le> z * z"
    by blast
  then have "t2 - c \<le> 0"
  proof cases
    case 1
    then have "1 \<le> a"
      unfolding a_def by (rule binary32_ge_1)
    then have "t1 \<le> 0"
      unfolding t1_def by (intro neg) simp
    then have "t2 \<le> 0"
      unfolding t2_def using pos by (intro neg) simp
    then show ?thesis using pos by simp
  next
    case 2
    then have "1 \<le> b"
      unfolding b_def by (rule binary32_ge_1)
    then have "t2 \<le> 0"
      unfolding t2_def using t1 by (intro neg) simp
    then show ?thesis using pos by simp
  next
    case 3
    then have "1 \<le> c"
      unfolding c_def by (rule binary32_ge_1)
    then show ?thesis using t2 by simp
  qed
  then show ?thesis
    unfolding q by (rule neg)
qed

lemma rv_4th_cases:
  "(rv_q0 x y z \<le> 0 \<longrightarrow> rv_4th x y z = 0) \<and>
   (0 < rv_q0 x y z \<longrightarrow> rv_4th x y z = binary32 (binary64 (sqrt (rv_q0 x y z)))) \<and>
   0 \<le> rv_4th x y z \<and>
   (1 \<le> x * x \<or> 1 \<le> y * y \<or> 1 \<le> z * z \<longrightarrow> rv_4th x y z = 0)"
proof -
  have "0 \<le> binary32 (binary64 (sqrt (rv_q0 x y z)))" if "0 < rv_q0 x y z"
  proof -
    have "0 \<le> binary64 (sqrt (rv_q0 x y z))"
      unfolding binary64_def using that round_float_sign [of "sqrt (rv_q0 x y z)"] by simp
    then show ?thesis
      using binary32_sign by blast
  qed
  then show ?thesis
    using rv_q0_clamped [of x y z] by (auto simp: rv_4th_def Let_def)
qed

lemma rv_q0_inside_example:
  "rv_q0 (9395241 / 33554432) (16106127 / 16777216) 0 = 0"
proof -
  have a: "binary32 (9395241 / 33554432 * (9395241 / 33554432)) = 5261335 / 67108864"
    by (subst binary32_normal [of "- 4"]) (simp_all add: round_even_def)
  have t1: "binary32 (1 - 5261335 / 67108864) = 7730941 / 8388608"
    by (subst binary32_normal [of "- 1"]) (simp_all add: round_even_def)
  have b: "binary32 (16106127 / 16777216 * (16106127 / 16777216)) = 7730941 / 8388608"
    by (subst binary32_normal [of "- 1"]) (simp_all add: round_even_def)
  show ?thesis
    unfolding rv_q0_def a t1 b by simp
qed

lemma rv_q0_outside_example:
  "rv_q0 (7918007 / 8388608) (10901835 / 33554432) (15864535 / 268435456) = 1 / 67108864"
proof -
  have a: "binary32 (7918007 / 8388608 * (7918007 / 8388608)) = 14947613 / 16777216"
    by (subst binary32_normal [of "- 1"]) (simp_all add: round_even_def)
  have t1: "binary32 (1 - 14947613 / 16777216) = 1829603 / 16777216"
    by (subst binary32_normal [of "- 4"]) (simp_all add: round_even_def)
  have b: "binary32 (10901835 / 33554432 * (10901835 / 33554432)) = 14168025 / 134217728"
    by (subst binary32_normal [of "- 4"]) (simp_all add: round_even_def)
  have t2: "binary32 (1829603 / 16777216 - 14168025 / 134217728) = 468799 / 134217728"
    by (subst binary32_normal [of "- 9"]) (simp_all add: round_even_def)
  have c: "binary32 (15864535 / 268435456 * (15864535 / 268435456)) = 468797 / 134217728"
    by (subst binary32_normal [of "- 9"]) (simp_all add: round_even_def)
  have q: "binary32 (468799 / 134217728 - 468797 / 134217728) = 1 / 67108864"
    by (subst binary32_normal [of "- 26"]) (simp_all add: round_even_def)
  show ?thesis
    unfolding rv_q0_def a t1 b t2 c q ..
qed

lemma rv_4th_outside_example:
  "rv_4th (7918007 / 8388608) (10901835 / 33554432) (15864535 / 268435456) = 1 / 8192"
proof -
  have s: "sqrt (1 / 67108864) = 1 / 8192"
    by (rule real_sqrt_unique) (simp_all add: power2_eq_square)
  have d: "binary64 (1 / 8192) = 1 / 8192"
    by (subst binary64_normal [of "- 13"]) (simp_all add: round_even_def)
  have f: "binary32 (1 / 8192) = 1 / 8192"
    by (subst binary32_normal [of "- 13"]) (simp_all add: round_even_def)
  show ?thesis
    unfolding rv_4th_def rv_q0_outside_example Let_def s d f by simp
qed

lemma rv_4th_inside_example: "rv_4th (9395241 / 33554432) (16106127 / 16777216) 0 = 0"
  by (simp add: rv_4th_def rv_q0_inside_example)

lemma calculate_rv_4th_element_rv_state:
  "data (mPendingEvents (projr (calculate_rv_4th_element sample_header 7 (rv_state x y z))) ! 7) 3
     = rv_4th x y z"
  by (simp add: calculate_rv_4th_element_def set_slot_def rv_state_def sample_state_def
      sample_header_def)

text \<open>
  C5, as stated, fails in both halves, because the code evaluates the radicand in single
  precision. With the \<^verbatim>\<open>float\<close> components \<open>x = 9395241 / 2\<^sup>2\<^sup>5\<close> and \<open>y = 16106127 / 2\<^sup>2\<^sup>4\<close>
  (the values of \<^verbatim>\<open>0.28f\<close> and \<^verbatim>\<open>0.96f\<close>) and \<open>z = 0\<close> the sum of the squares is below 1 and
  the square root of the claim is not 0, but the rounded radicand is 0 and the code
  stores 0. With \<open>x = 7918007 / 2\<^sup>2\<^sup>3\<close>, \<open>y = 10901835 / 2\<^sup>2\<^sup>5\<close> and \<open>z = 15864535 / 2\<^sup>2\<^sup>8\<close> the sum
  of the squares is above 1, but the rounded radicand is \<open>2\<^sup>-\<^sup>2\<^sup>6\<close> and the code stores
  \<open>2\<^sup>-\<^sup>1\<^sup>3\<close>, not 0.
\<close>

theorem rv_4th_rounding_counterexample:
  "9395241 / 33554432 * (9395241 / 33554432) + 16106127 / 16777216 * (16106127 / 16777216)
     + 0 * 0 \<le> (1::real) \<and>
   sqrt (1 - 9395241 / 33554432 * (9395241 / 33554432)
           - 16106127 / 16777216 * (16106127 / 16777216) - 0 * 0) \<noteq> 0 \<and>
   data (mPendingEvents (projr (calculate_rv_4th_element sample_header 7
     (rv_state (9395241 / 33554432) (16106127 / 16777216) 0))) ! 7) 3 = 0 \<and>
   (1::real) < 7918007 / 8388608 * (7918007 / 8388608)
     + 10901835 / 33554432 * (10901835 / 33554432)
     + 15864535 / 268435456 * (15864535 / 268435456) \<and>
   data (mPendingEvents (projr (calculate_rv_4th_element sample_header 7
     (rv_state (7918007 / 8388608) (10901835 / 33554432) (15864535 / 268435456)))) ! 7) 3
     = 1 / 8192"
  unfolding calculate_rv_4th_element_rv_state rv_4th_inside_example rv_4th_outside_example
  by simp

text \<open>
  C5, amended. For an identifier that is none of the three rotation-vector kinds
  \<^verbatim>\<open>calculate_rv_4th_element\<close> changes nothing. For a rotation-vector kind (whose slot is in
  the table) it writes \<^verbatim>\<open>data[3]\<close> of that slot and nothing else. With \<open>x\<close>, \<open>y\<close>, \<open>z\<close> the
  scaled components \<^verbatim>\<open>data[0..2]\<close> of the slot and \<open>q0\<close> the radicand
  \<open>1 - x\<^sup>2 - y\<^sup>2 - z\<^sup>2\<close> as the code computes it, every operation rounded to binary32,
  the value written is exactly 0 when \<open>q0 \<le> 0\<close> and the \<^verbatim>\<open>float\<close> of the \<^verbatim>\<open>double\<close> square
  root of \<open>q0\<close> when \<open>q0 > 0\<close>: the square root is never taken of a negative number. The
  value written is never negative, and it is 0 whenever one of \<open>x\<^sup>2\<close>, \<open>y\<^sup>2\<close>, \<open>z\<^sup>2\<close> is at
  least 1.
\<close>

theorem calculate_rv_4th_element_rounded:
  "(\<not> is_rv h sensors_id \<longrightarrow> calculate_rv_4th_element h sensors_id s = Inr s) \<and>
   (is_rv h sensors_id \<and> nat sensors_id < length (mPendingEvents s) \<longrightarrow>
      (let e = mPendingEvents s ! nat sensors_id; x = data e 0; y = data e 1; z = data e 2;
           q0 = rv_q0 x y z
       in calculate_rv_4th_element h sensors_id s =
            Inr (s\<lparr>mPendingEvents :=
                     (mPendingEvents s)[nat sensors_id := e\<lparr>data := (data e)(3 := rv_4th x y z)\<rparr>]\<rparr>) \<and>
          (q0 \<le> 0 \<longrightarrow> rv_4th x y z = 0) \<and>
          (0 < q0 \<longrightarrow> rv_4th x y z = binary32 (binary64 (sqrt q0))) \<and>
          0 \<le> rv_4th x y z \<and>
          (1 \<le> x * x \<or> 1 \<le> y * y \<or> 1 \<le> z * z \<longrightarrow> rv_4th x y z = 0)))"
proof -
  have a: "calculate_rv_4th_element h sensors_id s = Inr s" if "\<not> is_rv h sensors_id"
    using that by (simp add: calculate_rv_4th_element_def is_rv_def)
  have b: "calculate_rv_4th_element h sensors_id s =
      Inr (s\<lparr>mPendingEvents := (mPendingEvents s)
              [nat sensors_id := (mPendingEvents s ! nat sensors_id)
                 \<lparr>data := (data (mPendingEvents s ! nat sensors_id))
                    (3 := rv_4th (data (mPendingEvents s ! nat sensors_id) 0)
                                 (data (mPendingEvents s ! nat sensors_id) 1)
                                 (data (mPendingEvents s ! nat sensors_id) 2))\<rparr>]\<rparr>)"
    if "is_rv h sensors_id" "nat sensors_id < length (mPendingEvents s)"
    using that by (simp add: calculate_rv_4th_element_def is_rv_def set_slot_def)
  show ?thesis
    unfolding Let_def using a b rv_4th_cases by blast
qed

theorem calculate_rv_4th_element_rounded_witness:
  "calculate_rv_4th_element sample_header 0 (rv_state 0 0 0) = Inr (rv_state 0 0 0) \<and>
   data (mPendingEvents (projr (calculate_rv_4th_element sample_header 7 (rv_state 0 0 0)))
     ! 7) 3 = 1 \<and>
   data (mPendingEvents (projr (calculate_rv_4th_element sample_header 7 (rv_state 2 2 2)))
     ! 7) 3 = 0"
proof -
  have a: "\<not> is_rv sample_header 0" "is_rv sample_header 7"
    by (simp_all add: is_rv_def sample_header_def)
  have b: "nat 7 < length (mPendingEvents (rv_state x y z))" for x y z
    by (simp add: rv_state_def)
  have c: "mPendingEvents (rv_state x y z) ! 7 =
      zero_event\<lparr>data := (data zero_event)(0 := x, 1 := y, 2 := z)\<rparr>" for x y z
    by (simp add: rv_state_def)
  have q: "rv_q0 0 0 0 = 1"
    by (simp add: rv_q0_def)
  have 1: "calculate_rv_4th_element sample_header 0 (rv_state 0 0 0) = Inr (rv_state 0 0 0)"
    using calculate_rv_4th_element_rounded [of sample_header 0 "rv_state 0 0 0"] a by simp
  have 2: "rv_4th 0 0 0 = 1"
    using calculate_rv_4th_element_rounded [of sample_header 7 "rv_state 0 0 0"] a b
    by (simp add: c q Let_def)
  have 3: "rv_4th 2 2 2 = 0"
    using calculate_rv_4th_element_rounded [of sample_header 7 "rv_state 2 2 2"] a b
    by (simp add: c Let_def)
  show ?thesis
    using 1 2 3 by (simp add: calculate_rv_4th_element_rv_state)
qed


subsection \<open>Meta-data records (C7)\<close>

lemma processEvent_meta:
  assumes "wf_header h" "unat (event ! 0) = tag h CW_META_DATA"
    "tag h CW_META_DATA < length (mPendingEvents s)"
  shows "processEvent h event s =
    Inr (tag h CW_META_DATA,
         s\<lparr>mPendingEvents := (mPendingEvents s)
              [tag h CW_META_DATA :=
                 (mPendingEvents s ! tag h CW_META_DATA)\<lparr>timestamp := ev_time event\<rparr>],
           mPendingEventsFlush :=
             (mPendingEventsFlush s)\<lparr>meta_what := META_DATA_FLUSH_COMPLETE,
               meta_sensor := find_handle h (sint (ev_data event 0))\<rparr>\<rparr>)"
  using assms by (simp add: processEvent_def Let_def set_slot_def id_of_tag_tag)

text \<open>
  What the loop body does with a meta-data record, in every state. When the index
  \<^verbatim>\<open>CW_META_DATA\<close> is inside the table, it emits the flush event with
  \<^verbatim>\<open>meta_data.sensor = find_handle(data[0])\<close>, whatever \<^verbatim>\<open>mEnabled\<close> and \<^verbatim>\<open>mPendingMask\<close> are.
  When it is not, the timestamp write of \<^verbatim>\<open>processEvent\<close> is out of range.
\<close>

lemma dispatch_one_meta_data:
  assumes "wf_header h" "unat (event ! 0) = tag h CW_META_DATA"
  shows "dispatch_one h event s =
    (if tag h CW_META_DATA < length (mPendingEvents s)
     then Inr ([(mPendingEventsFlush s)\<lparr>meta_what := META_DATA_FLUSH_COMPLETE,
                  meta_sensor := find_handle h (sint (ev_data event 0))\<rparr>],
               s\<lparr>mPendingEvents := (mPendingEvents s)
                    [tag h CW_META_DATA :=
                       (mPendingEvents s ! tag h CW_META_DATA)\<lparr>timestamp := ev_time event\<rparr>],
                 mPendingEventsFlush :=
                   (mPendingEventsFlush s)\<lparr>meta_what := META_DATA_FLUSH_COMPLETE,
                     meta_sensor := find_handle h (sint (ev_data event 0))\<rparr>\<rparr>)
     else Inl IndexOutOfRange)"
proof (cases "tag h CW_META_DATA < length (mPendingEvents s)")
  case True
  then show ?thesis
    using assms by (simp add: dispatch_one_def processEvent_meta)
next
  case False
  then have "processEvent h event s = Inl IndexOutOfRange"
    using assms(2) by (intro processEvent_bad_index) simp
  with False show ?thesis
    by (simp add: dispatch_one_def)
qed


subsection \<open>The sync handshake (C8)\<close>

lemma processEvent_sync_ack:
  assumes "wf_header h" "unat (event ! 0) = tag h CW_SYNC_ACK"
  shows "processEvent h event s =
    (if tag h CW_SYNC_ACK < length (mPendingEvents s)
     then Inr (tag h CW_SYNC_ACK,
            s\<lparr>mPendingEvents := (mPendingEvents s)
                 [tag h CW_SYNC_ACK :=
                    (mPendingEvents s ! tag h CW_SYNC_ACK)\<lparr>timestamp := ev_time event\<rparr>],
              g_timestamp := (if sint (ev_data event 0) = SYNC_ACK_MAGIC then l_timestamp s
                              else g_timestamp s)\<rparr>)
     else Inl IndexOutOfRange)"
  using assms by (simp add: processEvent_def Let_def set_slot_def id_of_tag_tag)

lemma sync_timestamp_locked_state:
  "g_timestamp (snd (sync_timestamp_locked h s)) = g_timestamp s \<and>
   l_timestamp (snd (sync_timestamp_locked h s)) =
     (if fst (sync_timestamp_locked h s) = 0 then now (env s) (clock_reads (env s))
      else l_timestamp s)"
  by (simp add: sync_timestamp_locked_def Let_def open_write_def getTimestamp_def EIO_def
      ENOENT_def)


subsection \<open>The event budget (C9)\<close>

lemma dispatch_one_at_most_one:
  "dispatch_one h event s = Inr (out, s') \<Longrightarrow> length out \<le> 1"
  unfolding dispatch_one_def bindE_def
  by (auto split: sum.splits prod.splits if_splits)

text \<open>
  The loop processes exactly the first \<open>k\<close> buffered records and leaves the others, where
  \<open>k\<close> is the least number of records whose events use up the budget (or the number of
  all records).
\<close>

lemma dispatch_loop_budget:
  "dispatch_loop h q count s = Inr (outs, left, s') \<Longrightarrow>
   \<exists>k outss. k \<le> length q \<and> left = drop k q \<and>
     dispatch_all h (take k q) s = Inr (outss, s') \<and> length outss = k \<and>
     outs = concat outss \<and> length outs \<le> count \<and>
     (k < length q \<longrightarrow> length outs = count) \<and>
     (0 < k \<longrightarrow> length (concat (butlast outss)) < count)"
proof (induction q arbitrary: count s outs left s')
  case Nil
  then show ?case by simp
next
  case (Cons event rest)
  show ?case
  proof (cases "count = 0")
    case True
    with Cons.prems have "outs = []" "left = event # rest" "s' = s"
      by simp_all
    then show ?thesis
      using True by (intro exI [of _ 0] exI [of _ "[]"]) simp
  next
    case False
    with Cons.prems obtain out s1 outs' where
      one: "dispatch_one h event s = Inr (out, s1)" and
      more: "dispatch_loop h rest (count - length out) s1 = Inr (outs', left, s')" and
      outs: "outs = out @ outs'"
      by (auto simp: bindE_def split: sum.splits prod.splits)
    have le1: "length out \<le> 1"
      using one by (rule dispatch_one_at_most_one)
    from Cons.IH [OF more] obtain k outss where
      ih: "k \<le> length rest" "left = drop k rest"
      "dispatch_all h (take k rest) s1 = Inr (outss, s')" "length outss = k"
      "outs' = concat outss" "length outs' \<le> count - length out"
      "k < length rest \<longrightarrow> length outs' = count - length out"
      "0 < k \<longrightarrow> length (concat (butlast outss)) < count - length out"
      by blast
    have all: "dispatch_all h (take (Suc k) (event # rest)) s = Inr (out # outss, s')"
      using one ih(3) by simp
    have last: "length (concat (butlast (out # outss))) < count"
    proof (cases "k = 0")
      case True
      with ih(4) False show ?thesis by simp
    next
      case nz: False
      with ih(4) have "outss \<noteq> []" by auto
      with ih(8) nz le1 False show ?thesis by simp
    qed
    show ?thesis
      using ih le1 False outs all last
      by (intro exI [of _ "Suc k"] exI [of _ "out # outss"]) auto
  qed
qed

text \<open>
  C9. When \<^verbatim>\<open>readEvents\<close> is called with \<open>N \<ge> 1\<close> and returns, the value returned is at
  most \<open>N\<close>, and so is the number of events written. If the refill fails, its negative
  result is returned, no event is written and no record is consumed. Otherwise the value
  returned is the number of events written, and there is a \<open>k\<close> such that exactly the
  first \<open>k\<close> records buffered after the refill have been processed, in order, each by the
  loop body: the events written are theirs, the state is the one they leave, and the
  reader holds all the records from the \<open>k\<close>-th on, unprocessed, for the next call. If
  records remain, the budget \<open>N\<close> is used up, and the budget was not yet used up before
  the last processed record: no record is consumed without budget.
\<close>

theorem readEvents_respects_count:
  assumes "1 \<le> N" "readEvents h N s = Inr (r, outs, s')"
  shows "r \<le> N \<and> int (length outs) \<le> N \<and>
    (let f = fill (s\<lparr>env := snd (getTimestamp (env s))\<rparr>); q = mInputReader (snd f)
     in (fst f < 0 \<longrightarrow> r = fst f \<and> outs = [] \<and> s' = snd f) \<and>
        (0 \<le> fst f \<longrightarrow>
           r = int (length outs) \<and>
           (\<exists>k outss s2.
              k \<le> length q \<and> dispatch_all h (take k q) (snd f) = Inr (outss, s2) \<and>
              length outss = k \<and> outs = concat outss \<and>
              s' = s2\<lparr>mInputReader := drop k q\<rparr> \<and>
              (k < length q \<longrightarrow> int (length outs) = N) \<and>
              (0 < k \<longrightarrow> int (length (concat (butlast outss))) < N))))"
proof -
  let ?s0 = "s\<lparr>env := snd (getTimestamp (env s))\<rparr>"
  obtain n s1 where f: "fill ?s0 = (n, s1)"
    by (cases "fill ?s0")
  show ?thesis
  proof (cases "n < 0")
    case True
    with assms f have "r = n" "outs = []" "s' = s1"
      by (simp_all add: readEvents_def Let_def)
    with True assms(1) f show ?thesis
      by (simp add: Let_def)
  next
    case False
    with assms f obtain left s2 where
      loop: "dispatch_loop h (mInputReader s1) (nat N) s1 = Inr (outs, left, s2)" and
      r: "r = int (length outs)" and s': "s' = s2\<lparr>mInputReader := left\<rparr>"
      by (auto simp: readEvents_def Let_def bindE_def split: sum.splits prod.splits)
    from dispatch_loop_budget [OF loop] obtain k outss where
      b: "k \<le> length (mInputReader s1)" "left = drop k (mInputReader s1)"
      "dispatch_all h (take k (mInputReader s1)) s1 = Inr (outss, s2)" "length outss = k"
      "outs = concat outss" "length outs \<le> nat N"
      "k < length (mInputReader s1) \<longrightarrow> length outs = nat N"
      "0 < k \<longrightarrow> length (concat (butlast outss)) < nat N"
      by blast
    have ex: "\<exists>k outss s2.
        k \<le> length (mInputReader s1) \<and>
        dispatch_all h (take k (mInputReader s1)) s1 = Inr (outss, s2) \<and>
        length outss = k \<and> outs = concat outss \<and>
        s' = s2\<lparr>mInputReader := drop k (mInputReader s1)\<rparr> \<and>
        (k < length (mInputReader s1) \<longrightarrow> int (length outs) = N) \<and>
        (0 < k \<longrightarrow> int (length (concat (butlast outss))) < N)"
      using b s' assms(1) by (intro exI [of _ k] exI [of _ outss] exI [of _ s2]) auto
    show ?thesis
      using ex b(6) r f False assms(1) by (auto simp: Let_def)
  qed
qed

theorem readEvents_respects_count_witness:
  "(1::int) \<le> 1 \<and>
   (\<exists>r outs s'.
      readEvents sample_header 1
        (sample_state 23 1 [sample_record 0 5 0 0 7, sample_record 0 6 0 0 8] True)
        = Inr (r, outs, s') \<and>
      r = 1 \<and> length outs = 1 \<and> mInputReader s' = [sample_record 0 6 0 0 8])"
proof -
  let ?s = "sample_state 23 1 [sample_record 0 5 0 0 7, sample_record 0 6 0 0 8] True"
  obtain r outs s' where run: "readEvents sample_header 1 ?s = Inr (r, outs, s')"
    and left: "mInputReader s' = [sample_record 0 6 0 0 8]" and r1: "r = 1"
    by (simp add: readEvents_def Let_def fill_def getTimestamp_def dispatch_one_def
        processEvent_def set_slot_def get_slot_def set_pending_def shl1_def id_of_tag_def
        all_ids_def calculate_rv_4th_element_def sample_state_def sample_world_def
        sample_header_def sample_record_def IIO_MAX_BUFF_SIZE_def)
  have f: "fst (fill (?s\<lparr>env := snd (getTimestamp (env ?s))\<rparr>)) = 0"
    by (simp add: fill_def Let_def getTimestamp_def sample_state_def sample_world_def
        IIO_MAX_BUFF_SIZE_def)
  have "r = int (length outs)"
    using readEvents_respects_count [OF _ run] f unfolding Let_def by simp
  then show ?thesis
    using run left r1 by auto
qed

subsection \<open>Control operations on an invalid handle (C3)\<close>

lemma uint32_t_minus_1: "uint32_t (- 1) = 4294967295"
  by (simp add: uint32_t_def)

text \<open>
  C3, as stated, fails: on a handle that \<^verbatim>\<open>find_sensor\<close> maps to no kind, \<^verbatim>\<open>flush\<close> returns
  \<^verbatim>\<open>-EINVAL\<close> but has stored the handle in \<^verbatim>\<open>mFlushSensorEnabled\<close> (here 1000 instead of -1),
  and \<^verbatim>\<open>setEnable\<close> returns \<^verbatim>\<open>-EINVAL\<close> but has refreshed \<^verbatim>\<open>fill_block_debug\<close> from the system
  property (here 1 instead of 0).
\<close>

theorem invalid_handle_mutates_counterexample:
  "find_sensor sample_header 1000 = - 1 \<and>
   mFlushSensorEnabled (sample_state 23 0 [] True) = - 1 \<and>
   fst (flush sample_header 1000 (sample_state 23 0 [] True)) = - EINVAL \<and>
   mFlushSensorEnabled (snd (flush sample_header 1000 (sample_state 23 0 [] True))) = 1000 \<and>
   fill_block_debug (sample_state 23 0 [] True) = 0 \<and>
   fst (projr (setEnable sample_header 1000 1 (sample_state 23 0 [] True))) = - EINVAL \<and>
   fill_block_debug (snd (projr (setEnable sample_header 1000 1 (sample_state 23 0 [] True))))
     = 1"
  by (simp add: find_sensor_def flush_def setEnable_def uint32_t_def sample_header_def
      sample_state_def sample_world_def Let_def)

text \<open>
  C3, amended. For a handle that maps to no sensor kind (\<^verbatim>\<open>find_sensor\<close> returns -1; the two
  bounds of the header are 32-bit values) all four control operations return \<^verbatim>\<open>-EINVAL\<close>.
  \<^verbatim>\<open>setDelay\<close> and \<^verbatim>\<open>batch\<close> leave the whole state unchanged; \<^verbatim>\<open>setEnable\<close> changes nothing but
  \<^verbatim>\<open>fill_block_debug\<close>, which it sets from the system property; \<^verbatim>\<open>flush\<close> changes nothing but
  \<^verbatim>\<open>mFlushSensorEnabled\<close>, which it sets to the handle. In particular \<^verbatim>\<open>mEnabled\<close> and the
  environment are unchanged: nothing is written to sysfs.
\<close>

theorem invalid_handle_rejected:
  assumes "find_sensor h handle = - 1" "numSensors h < 2 ^ 32" "CW_SENSORS_ID_END h < 2 ^ 32"
  shows "setEnable h handle en s =
           Inr (- EINVAL,
                s\<lparr>fill_block_debug := (if fill_block_prop (env s) = 1 then 1 else 0)\<rparr>) \<and>
         setDelay h handle delay_ns s = (- EINVAL, s) \<and>
         batch h handle flags period_ns timeout s = (- EINVAL, s) \<and>
         flush h handle s = (- EINVAL, s\<lparr>mFlushSensorEnabled := handle\<rparr>)"
  using assms
  by (simp add: setEnable_def setDelay_def batch_def flush_def Let_def uint32_t_minus_1)

theorem invalid_handle_rejected_witness:
  "setEnable sample_header 1000 1 (sample_state 23 5 [] True) =
     Inr (- EINVAL, (sample_state 23 5 [] True)\<lparr>fill_block_debug := 1\<rparr>) \<and>
   setDelay sample_header 1000 20000000 (sample_state 23 5 [] True) =
     (- EINVAL, sample_state 23 5 [] True) \<and>
   batch sample_header 1000 0 20000000 0 (sample_state 23 5 [] True) =
     (- EINVAL, sample_state 23 5 [] True) \<and>
   flush sample_header 1000 (sample_state 23 5 [] True) =
     (- EINVAL, (sample_state 23 5 [] True)\<lparr>mFlushSensorEnabled := 1000\<rparr>)"
proof -
  have a: "find_sensor sample_header 1000 = - 1"
    by (simp add: find_sensor_def sample_header_def)
  have b: "numSensors sample_header < 2 ^ 32" "CW_SENSORS_ID_END sample_header < 2 ^ 32"
    by (simp_all add: sample_header_def)
  have c: "fill_block_prop (env (sample_state 23 5 [] True)) = 1"
    by (simp add: sample_state_def sample_world_def)
  show ?thesis
    using invalid_handle_rejected [OF a b, of _ "sample_state 23 5 [] True"] c by simp
qed

subsection \<open>What one record changes\<close>

lemma set_slot_Inr:
  "set_slot i f s = Inr s' \<longleftrightarrow>
   i < length (mPendingEvents s) \<and>
   s' = s\<lparr>mPendingEvents := (mPendingEvents s)[i := f (mPendingEvents s ! i)]\<rparr>"
  by (auto simp: set_slot_def)

lemma set_pending_Inr:
  "set_pending i s = Inr s' \<longleftrightarrow>
   i < 32 \<and> s' = s\<lparr>mPendingMask := mPendingMask s OR push_bit i 1\<rparr>"
  by (auto simp: set_pending_def shl1_def)

lemma map_update_same: "(map f xs)[i := f (xs ! i)] = map f xs"
  by (simp add: map_update [symmetric])

lemma sync_timestamp_table:
  "mPendingEvents (snd (sync_timestamp h s)) = mPendingEvents s"
  by (simp add: sync_timestamp_def sync_timestamp_locked_def Let_def open_write_def
      getTimestamp_def split: prod.splits)

text \<open>
  The \<^verbatim>\<open>switch\<close> of \<^verbatim>\<open>processEvent\<close> keeps the number of slots, and no label but
  \<^verbatim>\<open>CW_STEP_DETECTOR\<close> writes a timestamp.
\<close>

lemma decode_table:
  assumes "decode h k i dat bias s = Inr s'"
  shows "length (mPendingEvents s') = length (mPendingEvents s) \<and>
    (k \<noteq> Some CW_STEP_DETECTOR \<longrightarrow>
       map timestamp (mPendingEvents s') = map timestamp (mPendingEvents s))"
proof (cases k)
  case None
  with assms show ?thesis by simp
next
  case (Some x)
  with assms show ?thesis
    by (cases x)
      (auto simp: bindE_def set_pending_Inr set_slot_Inr store3_def sync_timestamp_table
        map_update map_update_same getTimestamp_def
        split: sum.splits prod.splits if_splits)
qed

lemma processEvent_Inr:
  assumes "processEvent h event s = Inr (i, s1)"
  shows "i = unat (event ! 0) \<and> i < length (mPendingEvents s) \<and>
    length (mPendingEvents s1) = length (mPendingEvents s) \<and>
    (\<exists>s0. set_slot i (\<lambda>e. e\<lparr>timestamp := ev_time event\<rparr>) s = Inr s0 \<and>
       timestamp (mPendingEvents s0 ! i) = ev_time event \<and>
       decode h (id_of_tag h (int i)) i (ev_data event) (ev_bias event) s0 = Inr s1) \<and>
    (id_of_tag h (int i) \<noteq> Some CW_STEP_DETECTOR \<longrightarrow>
       timestamp (mPendingEvents s1 ! i) = ev_time event)"
proof -
  from assms obtain s0 where
    i: "i = unat (event ! 0)" and
    0: "set_slot i (\<lambda>e. e\<lparr>timestamp := ev_time event\<rparr>) s = Inr s0" and
    1: "decode h (id_of_tag h (int i)) i (ev_data event) (ev_bias event) s0 = Inr s1"
    by (auto simp: processEvent_def Let_def bindE_def split: sum.splits)
  from 0 have lt: "i < length (mPendingEvents s)" and
    s0: "s0 = s\<lparr>mPendingEvents := (mPendingEvents s)
      [i := (mPendingEvents s ! i)\<lparr>timestamp := ev_time event\<rparr>]\<rparr>"
    by (simp_all add: set_slot_Inr)
  have t0: "timestamp (mPendingEvents s0 ! i) = ev_time event"
    using lt s0 by simp
  have len: "length (mPendingEvents s1) = length (mPendingEvents s)"
    using decode_table [OF 1] s0 by simp
  have keep: "timestamp (mPendingEvents s1 ! i) = ev_time event"
    if "id_of_tag h (int i) \<noteq> Some CW_STEP_DETECTOR"
  proof -
    have "map timestamp (mPendingEvents s1) ! i = map timestamp (mPendingEvents s0) ! i"
      using decode_table [OF 1] that by simp
    then show ?thesis
      using t0 lt len s0 by simp
  qed
  show ?thesis
    using i lt len 0 t0 1 keep by blast
qed

lemma map_eq_nth: "map f xs = map f ys \<Longrightarrow> i < length xs \<Longrightarrow> f (xs ! i) = f (ys ! i)"
  by (metis length_map nth_map)

lemma setEnable_table:
  "setEnable h handle en s = Inr (rc, s') \<Longrightarrow> mPendingEvents s' = mPendingEvents s"
  by (auto simp: setEnable_def setEnable_store_def setEnable_calibration_def Let_def bindE_def
      split: sum.splits prod.splits if_splits)

lemma calculate_rv_4th_element_table:
  "calculate_rv_4th_element h i s = Inr s' \<Longrightarrow>
   length (mPendingEvents s') = length (mPendingEvents s) \<and>
   map timestamp (mPendingEvents s') = map timestamp (mPendingEvents s)"
  by (auto simp: calculate_rv_4th_element_def set_slot_Inr map_update map_update_same
      split: if_splits)

subsection \<open>Device and host timestamps (C10)\<close>

text \<open>
  C10, as stated, fails in its last part: the device timestamp does not remain in the
  table after dispatch. For an acceleration record with device timestamp 7, enabled,
  \<^verbatim>\<open>processEvent\<close> leaves 7 in the slot, and after the loop body both the emitted event and
  the slot of the table carry the host time 1000.
\<close>

theorem device_timestamp_not_retained_counterexample:
  "ev_time (sample_record 0 5 0 0 7) = 7 \<and>
   timestamp (mPendingEvents (snd (projr
     (processEvent sample_header (sample_record 0 5 0 0 7) (sample_state 23 1 [] True)))) ! 0)
     = 7 \<and>
   map timestamp (fst (projr
     (dispatch_one sample_header (sample_record 0 5 0 0 7) (sample_state 23 1 [] True))))
     = [1000] \<and>
   timestamp (mPendingEvents (snd (projr
     (dispatch_one sample_header (sample_record 0 5 0 0 7) (sample_state 23 1 [] True)))) ! 0)
     = 1000"
  by (simp add: dispatch_one_def processEvent_def Let_def set_slot_def get_slot_def
      set_pending_def shl1_def id_of_tag_def all_ids_def calculate_rv_4th_element_def
      getTimestamp_def ev_time_def le64_def store3_def sample_state_def sample_world_def
      sample_header_def sample_record_def)

text \<open>
  C10, amended. For every record that is not a meta-data record and that the loop body
  processes: \<^verbatim>\<open>processEvent\<close> first stores the device timestamp of the record in the slot
  of the record's tag (and, unless the record is a step-detector record, it is still
  there when \<^verbatim>\<open>processEvent\<close> returns); the loop body then overwrites the timestamp of that
  slot with the host time read at that moment, so after dispatch the table holds the
  host time, not the device timestamp, and every event emitted carries the host time.
\<close>

theorem dispatch_overwrites_device_timestamp:
  assumes "unat (event ! 0) \<noteq> tag h CW_META_DATA"
    and "dispatch_one h event s = Inr (outs, s')"
  shows "\<exists>s0 s1.
      set_slot (unat (event ! 0)) (\<lambda>e. e\<lparr>timestamp := ev_time event\<rparr>) s = Inr s0 \<and>
      timestamp (mPendingEvents s0 ! unat (event ! 0)) = ev_time event \<and>
      processEvent h event s = Inr (unat (event ! 0), s1) \<and>
      (id_of_tag h (int (unat (event ! 0))) \<noteq> Some CW_STEP_DETECTOR \<longrightarrow>
         timestamp (mPendingEvents s1 ! unat (event ! 0)) = ev_time event) \<and>
      timestamp (mPendingEvents s' ! unat (event ! 0)) = now (env s1) (clock_reads (env s1)) \<and>
      (\<forall>e \<in> set outs. timestamp e = now (env s1) (clock_reads (env s1)))"
proof -
  from assms(2) obtain i s1 where p: "processEvent h event s = Inr (i, s1)"
    by (auto simp: dispatch_one_def bindE_def split: sum.splits)
  note P = processEvent_Inr [OF p]
  from P have i: "i = unat (event ! 0)" and len1: "i < length (mPendingEvents s1)"
    by simp_all
  let ?t = "now (env s1) (clock_reads (env s1))"
  let ?s2 = "s1\<lparr>env := (env s1)\<lparr>clock_reads := Suc (clock_reads (env s1))\<rparr>,
    mPendingEvents := (mPendingEvents s1)[i := (mPendingEvents s1 ! i)\<lparr>timestamp := ?t\<rparr>]\<rparr>"
  have t2: "timestamp (mPendingEvents ?s2 ! i) = ?t"
    using len1 by simp
  from assms p i len1 consider
    (quiet) "outs = []" "s' = ?s2"
    | (emit) s3 s4 where
      "(if i = tag h CW_SIGNIFICANT_MOTION
        then bindE (setEnable h (ID h CW_SIGNIFICANT_MOTION) 0 ?s2) (\<lambda>(rc, s3). Inr s3)
        else Inr ?s2) = Inr s3"
      "calculate_rv_4th_element h (int i) s3 = Inr s4" "outs = [mPendingEvents s4 ! i]"
      "s' = s4" "i < length (mPendingEvents s4)"
    by (auto simp: dispatch_one_def getTimestamp_def set_slot_def get_slot_def bindE_def
        split: sum.splits prod.splits if_splits)
  then have final: "timestamp (mPendingEvents s' ! i) = ?t \<and> (\<forall>e \<in> set outs. timestamp e = ?t)"
  proof cases
    case quiet
    then show ?thesis using t2 by simp
  next
    case emit
    have 3: "mPendingEvents s3 = mPendingEvents ?s2"
      using emit(1) setEnable_table
      by (auto simp: bindE_def split: if_splits sum.splits prod.splits)
    have "timestamp (mPendingEvents s4 ! i) = timestamp (mPendingEvents s3 ! i)"
      using calculate_rv_4th_element_table [OF emit(2)] emit(5) by (intro map_eq_nth) simp_all
    then show ?thesis
      using emit(3,4) 3 t2 by simp
  qed
  show ?thesis
    using P p final unfolding i by blast
qed

theorem dispatch_overwrites_device_timestamp_witness:
  "unat (sample_record 0 5 0 0 7 ! 0) \<noteq> tag sample_header CW_META_DATA \<and>
   (\<exists>outs s'.
      dispatch_one sample_header (sample_record 0 5 0 0 7) (sample_state 23 1 [] True)
        = Inr (outs, s') \<and>
      length outs = 1 \<and> list_all (\<lambda>e. timestamp e = 1000) outs \<and>
      timestamp (mPendingEvents s' ! 0) = 1000)"
proof -
  let ?ev = "sample_record 0 5 0 0 7"
  let ?s = "sample_state 23 1 [] True"
  have a: "unat (?ev ! 0) \<noteq> tag sample_header CW_META_DATA"
    by (simp add: sample_record_def sample_header_def)
  have z: "unat (?ev ! 0) = 0"
    by (simp add: sample_record_def)
  obtain outs s' where run: "dispatch_one sample_header ?ev ?s = Inr (outs, s')"
    and n: "length outs = 1"
    by (simp add: dispatch_one_def processEvent_def Let_def set_slot_def get_slot_def
        set_pending_def shl1_def id_of_tag_def all_ids_def calculate_rv_4th_element_def
        getTimestamp_def sample_state_def sample_world_def sample_header_def
        sample_record_def)
  obtain s1 where p: "processEvent sample_header ?ev ?s = Inr (0, s1)"
    and c: "now (env s1) (clock_reads (env s1)) = 1000"
    by (simp add: processEvent_def Let_def set_slot_def set_pending_def shl1_def
        id_of_tag_def all_ids_def sample_state_def sample_world_def sample_header_def
        sample_record_def)
  have "timestamp (mPendingEvents s' ! 0) = 1000 \<and> (\<forall>e \<in> set outs. timestamp e = 1000)"
    using dispatch_overwrites_device_timestamp [OF a run] p c unfolding z by auto
  then show ?thesis
    using a run n by (auto simp: list_all_iff)
qed

subsection \<open>The one-shot significant-motion sensor (C4)\<close>

lemma and_not_and_self: "(m AND NOT b) AND b = (0 :: 32 word)"
  by (simp add: and.assoc)

lemma uint32_t_small: "t < 32 \<Longrightarrow> uint32_t (int t) = t"
  by (simp add: uint32_t_def)

lemma setEnable_disable:
  assumes "find_sensor h handle = int t" "t < numSensors h" "t < 32"
    "open_succeeds (env s) (opens (env s))"
  shows "\<exists>s'. setEnable h handle 0 s = Inr (0, s') \<and>
    mEnabled s' = mEnabled s AND NOT (push_bit t 1) \<and>
    mPendingEvents s' = mPendingEvents s"
  using assms
  by (simp add: setEnable_def setEnable_store_def setEnable_calibration_def Let_def
      open_write_def shl1_def uint32_t_small)

lemma processEvent_significant_motion:
  assumes "wf_header h" "unat (event ! 0) = tag h CW_SIGNIFICANT_MOTION"
    "tag h CW_SIGNIFICANT_MOTION < length (mPendingEvents s)"
    "tag h CW_SIGNIFICANT_MOTION < 32"
  shows "\<exists>s1. processEvent h event s = Inr (tag h CW_SIGNIFICANT_MOTION, s1) \<and>
    mEnabled s1 = mEnabled s \<and> env s1 = env s \<and>
    length (mPendingEvents s1) = length (mPendingEvents s)"
  using assms
  by (simp add: processEvent_def Let_def set_slot_def set_pending_def shl1_def id_of_tag_tag)

lemma dispatch_one_significant_motion_disabled:
  assumes "wf_header h" "unat (event ! 0) = tag h CW_SIGNIFICANT_MOTION"
    "tag h CW_SIGNIFICANT_MOTION < length (mPendingEvents s)"
    "tag h CW_SIGNIFICANT_MOTION < 32"
    "mEnabled s AND push_bit (tag h CW_SIGNIFICANT_MOTION) 1 = 0"
  shows "\<exists>s'. dispatch_one h event s = Inr ([], s') \<and> mEnabled s' = mEnabled s"
proof -
  from processEvent_significant_motion [OF assms(1-4)] obtain s1 where
    p: "processEvent h event s = Inr (tag h CW_SIGNIFICANT_MOTION, s1)" and
    s1: "mEnabled s1 = mEnabled s" "length (mPendingEvents s1) = length (mPendingEvents s)"
    by blast
  have ne: "tag h CW_SIGNIFICANT_MOTION \<noteq> tag h CW_META_DATA"
    using wf_header_inj [OF assms(1)] by blast
  show ?thesis
    using assms(3-5) s1 ne
    by (simp add: dispatch_one_def p getTimestamp_def set_slot_def shl1_def)
qed

text \<open>
  C4, as stated, fails: the enabled bit is cleared by \<^verbatim>\<open>setEnable\<close>, and \<^verbatim>\<open>setEnable\<close> changes
  \<^verbatim>\<open>mEnabled\<close> only under \<^verbatim>\<open>if (fd >= 0)\<close>. In an environment where the first \<^verbatim>\<open>open\<close> succeeds
  and the later ones fail, the framework enables the sensor (handle 14, bit 20 of the
  mask, 1048576); then one call of \<^verbatim>\<open>readEvents\<close> on two buffered significant-motion records
  returns 2 and writes two output events, and the bit is still set afterwards.
\<close>

theorem significant_motion_repeats_counterexample:
  "mEnabled (snd (projr (setEnable sample_header 14 1
     ((sample_state 23 0 [sample_record 20 1 0 0 7, sample_record 20 1 0 0 8] True)
        \<lparr>env := sample_world_once\<rparr>)))) = 1048576 \<and>
   fst (projr (readEvents sample_header 2 (snd (projr (setEnable sample_header 14 1
     ((sample_state 23 0 [sample_record 20 1 0 0 7, sample_record 20 1 0 0 8] True)
        \<lparr>env := sample_world_once\<rparr>)))))) = 2 \<and>
   map timestamp (fst (snd (projr (readEvents sample_header 2 (snd (projr
     (setEnable sample_header 14 1
     ((sample_state 23 0 [sample_record 20 1 0 0 7, sample_record 20 1 0 0 8] True)
        \<lparr>env := sample_world_once\<rparr>)))))))) = [1001, 1002] \<and>
   mEnabled (snd (snd (projr (readEvents sample_header 2 (snd (projr
     (setEnable sample_header 14 1
     ((sample_state 23 0 [sample_record 20 1 0 0 7, sample_record 20 1 0 0 8] True)
        \<lparr>env := sample_world_once\<rparr>)))))))) = 1048576"
  by (simp add: readEvents_def Let_def fill_def getTimestamp_def dispatch_one_def
      processEvent_def set_slot_def get_slot_def set_pending_def shl1_def id_of_tag_def
      all_ids_def calculate_rv_4th_element_def setEnable_def setEnable_store_def
      setEnable_calibration_def open_write_def find_sensor_def uint32_t_def store3_def
      sample_state_def sample_world_def sample_world_once_def sample_header_def
      sample_record_def IIO_MAX_BUFF_SIZE_def)

text \<open>
  C4, amended. Let the header map the handle of the significant-motion sensor back to its
  kind, with a tag below \<^verbatim>\<open>numSensors\<close> and below 32 and inside the table. When the loop
  body processes a significant-motion record while the sensor is enabled and the \<^verbatim>\<open>enable\<close>
  attribute can be opened, it emits exactly one event and the bit of the sensor is
  cleared in \<^verbatim>\<open>mEnabled\<close> (nothing else of the mask changes). From any later state in which
  the bit is still clear, a significant-motion record produces no event and leaves
  \<^verbatim>\<open>mEnabled\<close> as it is.
\<close>

theorem significant_motion_one_shot:
  assumes "wf_header h"
    and "find_sensor h (ID h CW_SIGNIFICANT_MOTION) = int (tag h CW_SIGNIFICANT_MOTION)"
    and "tag h CW_SIGNIFICANT_MOTION < numSensors h"
    and "tag h CW_SIGNIFICANT_MOTION < 32"
    and "unat (event ! 0) = tag h CW_SIGNIFICANT_MOTION"
    and "tag h CW_SIGNIFICANT_MOTION < length (mPendingEvents s)"
    and "mEnabled s AND push_bit (tag h CW_SIGNIFICANT_MOTION) 1 \<noteq> 0"
    and "open_succeeds (env s) (opens (env s))"
  shows "\<exists>e s'. dispatch_one h event s = Inr ([e], s') \<and>
      mEnabled s' = mEnabled s AND NOT (push_bit (tag h CW_SIGNIFICANT_MOTION) 1) \<and>
      mEnabled s' AND push_bit (tag h CW_SIGNIFICANT_MOTION) 1 = 0 \<and>
      (\<forall>event2 u.
         unat (event2 ! 0) = tag h CW_SIGNIFICANT_MOTION \<and>
         tag h CW_SIGNIFICANT_MOTION < length (mPendingEvents u) \<and>
         mEnabled u AND push_bit (tag h CW_SIGNIFICANT_MOTION) 1 = 0 \<longrightarrow>
         (\<exists>u'. dispatch_one h event2 u = Inr ([], u') \<and> mEnabled u' = mEnabled u))"
proof -
  let ?t = "tag h CW_SIGNIFICANT_MOTION"
  from processEvent_significant_motion [OF assms(1,5,6,4)] obtain s1 where
    p: "processEvent h event s = Inr (?t, s1)" and
    s1: "mEnabled s1 = mEnabled s" "env s1 = env s"
    "length (mPendingEvents s1) = length (mPendingEvents s)"
    by blast
  let ?s2 = "s1\<lparr>env := (env s1)\<lparr>clock_reads := Suc (clock_reads (env s1))\<rparr>,
    mPendingEvents := (mPendingEvents s1)
      [?t := (mPendingEvents s1 ! ?t)\<lparr>timestamp := now (env s1) (clock_reads (env s1))\<rparr>]\<rparr>"
  have o: "open_succeeds (env ?s2) (opens (env ?s2))"
    using assms(8) s1 by simp
  from setEnable_disable [OF assms(2,3,4) o] obtain s3 where
    e: "setEnable h (ID h CW_SIGNIFICANT_MOTION) 0 ?s2 = Inr (0, s3)" and
    s3: "mEnabled s3 = mEnabled ?s2 AND NOT (push_bit ?t 1)"
    "mPendingEvents s3 = mPendingEvents ?s2"
    by blast
  have ne: "?t \<noteq> tag h CW_META_DATA" "?t \<noteq> tag h CW_ROTATIONVECTOR"
    "?t \<noteq> tag h CW_GAME_ROTATION_VECTOR" "?t \<noteq> tag h CW_GEOMAGNETIC_ROTATION_VECTOR"
    using wf_header_inj [OF assms(1)] by blast+
  have c: "calculate_rv_4th_element h (int ?t) s3 = Inr s3"
    using ne by (simp add: calculate_rv_4th_element_def)
  have g: "get_slot ?t s3 = Inr (mPendingEvents s3 ! ?t)"
    using s3 s1 assms(6) by (simp add: get_slot_def)
  have run: "dispatch_one h event s = Inr ([mPendingEvents s3 ! ?t], s3)"
    using assms(4,6,7) s1 ne e c g
    by (simp add: dispatch_one_def p getTimestamp_def set_slot_def shl1_def)
  have m: "mEnabled s3 = mEnabled s AND NOT (push_bit ?t 1)"
    using s3 s1 by simp
  have later: "\<exists>u'. dispatch_one h event2 u = Inr ([], u') \<and> mEnabled u' = mEnabled u"
    if "unat (event2 ! 0) = ?t" "?t < length (mPendingEvents u)"
      "mEnabled u AND push_bit ?t 1 = 0" for event2 u
    using dispatch_one_significant_motion_disabled [OF assms(1) that(1,2) assms(4) that(3)] .
  show ?thesis
    using run m later by (auto simp: and_not_and_self)
qed

theorem significant_motion_one_shot_witness:
  "(\<exists>e s'.
      dispatch_one sample_header (sample_record 20 1 0 0 7) (sample_state 23 1048577 [] True)
        = Inr ([e], s') \<and>
      mEnabled s' = 1 \<and>
      (\<exists>u'. dispatch_one sample_header (sample_record 20 1 0 0 8) s' = Inr ([], u') \<and>
            mEnabled u' = 1))"
proof -
  let ?s = "sample_state 23 1048577 [] True"
  have a: "wf_header sample_header"
    by (simp add: wf_header_def all_ids_def sample_header_def)
  have b: "find_sensor sample_header (ID sample_header CW_SIGNIFICANT_MOTION) =
      int (tag sample_header CW_SIGNIFICANT_MOTION)"
    by (simp add: find_sensor_def sample_header_def)
  have t: "tag sample_header CW_SIGNIFICANT_MOTION = 20"
    by (simp add: sample_header_def)
  have c: "tag sample_header CW_SIGNIFICANT_MOTION < numSensors sample_header"
    "tag sample_header CW_SIGNIFICANT_MOTION < 32"
    by (simp_all add: sample_header_def)
  have d: "unat (sample_record 20 1 0 0 x ! 0) = tag sample_header CW_SIGNIFICANT_MOTION" for x
    by (simp add: sample_record_def sample_header_def)
  have e: "tag sample_header CW_SIGNIFICANT_MOTION < length (mPendingEvents ?s)"
    by (simp add: sample_header_def sample_state_def)
  have f: "mEnabled ?s AND push_bit (tag sample_header CW_SIGNIFICANT_MOTION) 1 \<noteq> 0"
    by (simp add: sample_header_def sample_state_def)
  have g: "open_succeeds (env ?s) (opens (env ?s))"
    by (simp add: sample_state_def sample_world_def)
  have m: "mEnabled ?s AND NOT (push_bit 20 1) = 1"
    by (simp add: sample_state_def)
  from significant_motion_one_shot [OF a b c d e f g, of 7] obtain ev s' where
    run: "dispatch_one sample_header (sample_record 20 1 0 0 7) ?s = Inr ([ev], s')" and
    s': "mEnabled s' = 1" "mEnabled s' AND push_bit 20 1 = 0" and
    later: "\<And>event2 u. unat (event2 ! 0) = 20 \<Longrightarrow> 20 < length (mPendingEvents u) \<Longrightarrow>
      mEnabled u AND push_bit 20 1 = 0 \<Longrightarrow>
      \<exists>u'. dispatch_one sample_header event2 u = Inr ([], u') \<and> mEnabled u' = mEnabled u"
    unfolding t m by blast
  have len: "20 < length (mPendingEvents s')"
  proof -
    have "length (mPendingEvents s') = 23"
      using run
      by (simp add: dispatch_one_def processEvent_def Let_def set_slot_def get_slot_def
        set_pending_def shl1_def id_of_tag_def all_ids_def calculate_rv_4th_element_def
        setEnable_def setEnable_store_def setEnable_calibration_def open_write_def
        find_sensor_def uint32_t_def store3_def getTimestamp_def
        sysfs_set_input_attr_by_int_def sysfs_set_input_attr_def
        sample_state_def sample_world_def sample_header_def sample_record_def) auto
    then show ?thesis by simp
  qed
  from later [OF _ len s'(2), of "sample_record 20 1 0 0 8"] obtain u' where
    "dispatch_one sample_header (sample_record 20 1 0 0 8) s' = Inr ([], u')"
    "mEnabled u' = 1"
    using s'(1) by (auto simp: sample_record_def)
  then show ?thesis
    using run s' by blast
qed

subsection \<open>Decoding and finalization of one record (C2)\<close>

lemma wf_header_tag_eq: "wf_header h \<Longrightarrow> tag h j = tag h k \<longleftrightarrow> j = k"
  using wf_header_inj by blast

lemma decode_finalize_sensor:
  assumes "wf_header h" "is_sensor k" "k \<noteq> CW_STEP_DETECTOR"
    "unat (event ! 0) = tag h k" "tag h k < length (mPendingEvents s)" "tag h k < 32"
  shows "\<exists>s'. decode_finalize h event s = Inr s' \<and>
    s' = s\<lparr>mPendingMask := mPendingMask s OR push_bit (tag h k) 1,
           mPendingEvents := (mPendingEvents s)[tag h k := mPendingEvents s' ! tag h k]\<rparr>"
  using assms
  by (cases k)
    (simp_all add: decode_finalize_def processEvent_def Let_def set_slot_def set_pending_def
      shl1_def id_of_tag_tag calculate_rv_4th_element_def wf_header_tag_eq)

lemma decode_finalize_same_sample:
  assumes "wf_header h" "is_sensor k" "k \<noteq> CW_STEP_DETECTOR"
    "unat (event ! 0) = tag h k" "tag h k < 32"
    "tag h k < length (mPendingEvents s)" "tag h k < length (mPendingEvents t)"
    "mPendingEvents s ! tag h k = mPendingEvents t ! tag h k"
    "decode_finalize h event s = Inr s'" "decode_finalize h event t = Inr t'"
  shows "mPendingEvents s' ! tag h k = mPendingEvents t' ! tag h k"
  using assms
  by (cases k)
    (auto simp: decode_finalize_def processEvent_def Let_def set_slot_def set_pending_def
      shl1_def id_of_tag_tag calculate_rv_4th_element_def wf_header_tag_eq)

text \<open>
  C2, as stated, fails. A step-detector record (tag 21) with primary value 5 changes the
  slot of another kind: \<^verbatim>\<open>data[0]\<close> of the step-counter slot (index 22) becomes 5; its own
  timestamp is the host time 1000 read from the clock, not a function of the bytes, and
  the clock has been read once. Every sensor record also changes state outside its
  slot: the acceleration record sets bit 0 of \<^verbatim>\<open>mPendingMask\<close>. A time-diff-exhausted
  record (tag 97, on a table that has a slot 97) with the magic value \<^verbatim>\<open>0x77\<close> triggers
  I/O: the sync code 98 is written to the \<^verbatim>\<open>flush\<close> attribute.
\<close>

theorem decode_changes_other_state_counterexample:
  "data (mPendingEvents (sample_state 23 0 [] True) ! 22) 0 = 0 \<and>
   data (mPendingEvents (projr (decode_finalize sample_header (sample_record 21 5 0 0 7)
     (sample_state 23 0 [] True))) ! 22) 0 = 5 \<and>
   timestamp (mPendingEvents (projr (decode_finalize sample_header (sample_record 21 5 0 0 7)
     (sample_state 23 0 [] True))) ! 21) = 1000 \<and>
   clock_reads (env (sample_state 23 0 [] True)) = 0 \<and>
   clock_reads (env (projr (decode_finalize sample_header (sample_record 21 5 0 0 7)
     (sample_state 23 0 [] True)))) = 1 \<and>
   mPendingMask (sample_state 23 0 [] True) = 0 \<and>
   mPendingMask (projr (decode_finalize sample_header (sample_record 0 5 0 0 7)
     (sample_state 23 0 [] True))) = 1 \<and>
   written (env (sample_state 128 0 [] True)) = [] \<and>
   written (env (projr (decode_finalize sample_header (sample_record 97 0x77 0 0 7)
     (sample_state 128 0 [] True)))) = [(''flush'', [98])]"
  by (simp add: decode_finalize_def processEvent_def Let_def set_slot_def set_pending_def
      shl1_def id_of_tag_def all_ids_def calculate_rv_4th_element_def getTimestamp_def
      store3_def float16_def ev_data_def le16_def sync_timestamp_def
      sync_timestamp_locked_def open_write_def EXHAUSTED_MAGIC_def sample_state_def
      sample_world_def sample_header_def sample_record_def zero_event_def)

text \<open>
  C2, amended. Take a sensor kind other than the step detector whose tag is inside the
  table and below 32, a record with that tag, and two runs of decoding followed by
  finalization on these bytes, from any two states that agree on the slot of that kind
  (they may differ everywhere else, also in the clock and the files). Both runs succeed
  and leave the same sample \<open>e\<close> in the slot. Each run changes nothing but that slot and
  the bit of the kind in \<^verbatim>\<open>mPendingMask\<close>: every other slot, \<^verbatim>\<open>mEnabled\<close>, the flush event, the
  sync timestamps and the environment are as before, so the clock is not read and no
  file is opened.
\<close>

theorem decode_finalize_deterministic_local:
  assumes "wf_header h" "is_sensor k" "k \<noteq> CW_STEP_DETECTOR"
    "unat (event ! 0) = tag h k" "tag h k < 32"
    "tag h k < length (mPendingEvents s)" "tag h k < length (mPendingEvents t)"
    "mPendingEvents s ! tag h k = mPendingEvents t ! tag h k"
  shows "\<exists>e. decode_finalize h event s =
               Inr (s\<lparr>mPendingMask := mPendingMask s OR push_bit (tag h k) 1,
                      mPendingEvents := (mPendingEvents s)[tag h k := e]\<rparr>) \<and>
             decode_finalize h event t =
               Inr (t\<lparr>mPendingMask := mPendingMask t OR push_bit (tag h k) 1,
                      mPendingEvents := (mPendingEvents t)[tag h k := e]\<rparr>)"
proof -
  from decode_finalize_sensor [OF assms(1-4,6,5)] obtain s' where
    s: "decode_finalize h event s = Inr s'"
    "s' = s\<lparr>mPendingMask := mPendingMask s OR push_bit (tag h k) 1,
            mPendingEvents := (mPendingEvents s)[tag h k := mPendingEvents s' ! tag h k]\<rparr>"
    by blast
  from decode_finalize_sensor [OF assms(1-4,7,5)] obtain t' where
    t: "decode_finalize h event t = Inr t'"
    "t' = t\<lparr>mPendingMask := mPendingMask t OR push_bit (tag h k) 1,
            mPendingEvents := (mPendingEvents t)[tag h k := mPendingEvents t' ! tag h k]\<rparr>"
    by blast
  have same: "mPendingEvents s' ! tag h k = mPendingEvents t' ! tag h k"
    using assms s(1) t(1) by (rule decode_finalize_same_sample)
  show ?thesis
    using s t same by (intro exI [of _ "mPendingEvents s' ! tag h k"]) simp
qed

theorem decode_finalize_deterministic_local_witness:
  "\<exists>e. decode_finalize sample_header (sample_record 7 100 0 0 9) (sample_state 23 0 [] True) =
          Inr ((sample_state 23 0 [] True)\<lparr>mPendingMask := 128,
                 mPendingEvents := (replicate 23 zero_event)[7 := e]\<rparr>) \<and>
        decode_finalize sample_header (sample_record 7 100 0 0 9)
          (sample_state 23 5 [sample_record 0 0 0 0 0] False) =
          Inr ((sample_state 23 5 [sample_record 0 0 0 0 0] False)\<lparr>mPendingMask := 128,
                 mPendingEvents := (replicate 23 zero_event)[7 := e]\<rparr>)"
proof -
  let ?s = "sample_state 23 0 [] True"
  let ?t = "sample_state 23 5 [sample_record 0 0 0 0 0] False"
  have a: "wf_header sample_header"
    by (simp add: wf_header_def all_ids_def sample_header_def)
  have b: "is_sensor CW_ROTATIONVECTOR" "CW_ROTATIONVECTOR \<noteq> CW_STEP_DETECTOR"
    by simp_all
  have k: "tag sample_header CW_ROTATIONVECTOR = 7"
    by (simp add: sample_header_def)
  have c: "unat (sample_record 7 100 0 0 9 ! 0) = tag sample_header CW_ROTATIONVECTOR"
    by (simp add: sample_record_def k)
  have d: "tag sample_header CW_ROTATIONVECTOR < 32"
    "tag sample_header CW_ROTATIONVECTOR < length (mPendingEvents ?s)"
    "tag sample_header CW_ROTATIONVECTOR < length (mPendingEvents ?t)"
    by (simp_all add: k sample_state_def)
  have e: "mPendingEvents ?s ! tag sample_header CW_ROTATIONVECTOR =
      mPendingEvents ?t ! tag sample_header CW_ROTATIONVECTOR"
    by (simp add: k sample_state_def)
  have f: "mPendingMask ?s OR push_bit 7 1 = 128" "mPendingMask ?t OR push_bit 7 1 = 128"
    "mPendingEvents ?s = replicate 23 zero_event" "mPendingEvents ?t = replicate 23 zero_event"
    by (simp_all add: sample_state_def)
  show ?thesis
    using decode_finalize_deterministic_local [OF a b c d e] unfolding k f .
qed

end
